theory Spec2Isabelle
  imports Complex_Main "HOL-Library.Log_Nat"
begin

section \<open>Python strings\<close>

text \<open>
  The crawler and the scorers work on Python \<open>str\<close> values. They are modelled as
  \<open>string\<close>, one \<open>char\<close> per code point, which covers the code points 0 to 255.
  The functions below are the \<open>str\<close> methods the source calls, with Python's
  behaviour on that range.
\<close>

definition py_isspace :: "char \<Rightarrow> bool" where
  "py_isspace c = ((of_char c :: nat) \<in> {9, 10, 11, 12, 13, 28, 29, 30, 31, 32, 133, 160})"

definition lower_char :: "char \<Rightarrow> char" where
  "lower_char c =
     (let n = (of_char c :: nat)
      in if (65 \<le> n \<and> n \<le> 90) \<or> (192 \<le> n \<and> n \<le> 222 \<and> n \<noteq> 215)
         then char_of (n + 32) else c)"

definition lower :: "string \<Rightarrow> string" where
  "lower s = map lower_char s"

definition lstrip :: "string \<Rightarrow> string" where
  "lstrip s = dropWhile py_isspace s"

definition rstrip :: "string \<Rightarrow> string" where
  "rstrip s = rev (dropWhile py_isspace (rev s))"

definition strip :: "string \<Rightarrow> string" where
  "strip s = rstrip (lstrip s)"

text \<open>\<open>startswith s p\<close> is \<open>s.startswith(p)\<close> and \<open>endswith s p\<close> is \<open>s.endswith(p)\<close>.\<close>

fun startswith :: "string \<Rightarrow> string \<Rightarrow> bool" where
  "startswith s [] = True"
| "startswith [] (c # cs) = False"
| "startswith (x # xs) (c # cs) = (x = c \<and> startswith xs cs)"

definition endswith :: "string \<Rightarrow> string \<Rightarrow> bool" where
  "endswith s p = startswith (rev s) (rev p)"

text \<open>\<open>contains p s\<close> is Python's \<open>p in s\<close> on strings.\<close>

fun contains :: "string \<Rightarrow> string \<Rightarrow> bool" where
  "contains p [] = (p = [])"
| "contains p (c # cs) = (startswith (c # cs) p \<or> contains p cs)"

section \<open>Exceptions\<close>

text \<open>
  A Python exception is a value: the class of the exception and, where the source
  reads it back through \<open>str(e)\<close>, its message. A \<open>KeyError\<close> carries the key
  as \<open>repr\<close> prints it; \<open>quoted\<close> is \<open>repr\<close> of a plain string.
\<close>

definition quoted :: "string \<Rightarrow> string" where
  "quoted k = [CHR 0x27] @ k @ [CHR 0x27]"

datatype py_error =
    ValueError string
  | KeyError string
  | TypeError
  | AttributeError
  | IndexError
  | JSONDecodeError
  | OtherError string

fun str_of_error :: "py_error \<Rightarrow> string" where
  "str_of_error (ValueError m) = m"
| "str_of_error (KeyError k) = k"
| "str_of_error TypeError = ''TypeError''"
| "str_of_error AttributeError = ''AttributeError''"
| "str_of_error IndexError = ''IndexError''"
| "str_of_error JSONDecodeError = ''JSONDecodeError''"
| "str_of_error (OtherError m) = m"

section \<open>The network location of a URL (urllib.parse.urlparse)\<close>

text \<open>
  \<open>blocklist.py\<close>, \<open>crawler.py\<close> and \<open>composite_scorer.py\<close> read
  \<open>urlparse(url).netloc\<close>. The function below follows \<open>urlsplit\<close> of the
  standard library (CPython 3.11) as far as the network location goes: leading
  control characters and spaces are dropped, tabs and line breaks are removed, a
  leading scheme and its colon are cut off, and, if the rest starts with two
  slashes, the network location runs up to the first slash, question mark or hash
  sign. A network location with only one of the two square brackets raises
  \<open>ValueError\<close>. The check of a bracketed host is done by the library's
  \<open>ipaddress\<close> module; it is the parameter \<open>check_host\<close>, which returns the
  error it raises, if any. The check under NFKC normalisation never raises on the
  code points 0 to 255.
\<close>

definition c0_control_or_space :: "char \<Rightarrow> bool" where
  "c0_control_or_space c = ((of_char c :: nat) \<le> 32)"

definition unsafe_url_byte :: "char \<Rightarrow> bool" where
  "unsafe_url_byte c = ((of_char c :: nat) \<in> {9, 13, 10})"

definition ascii_alpha :: "char \<Rightarrow> bool" where
  "ascii_alpha c =
     (let n = (of_char c :: nat) in (65 \<le> n \<and> n \<le> 90) \<or> (97 \<le> n \<and> n \<le> 122))"

definition scheme_char :: "char \<Rightarrow> bool" where
  "scheme_char c =
     (let n = (of_char c :: nat)
      in ascii_alpha c \<or> (48 \<le> n \<and> n \<le> 57) \<or> c \<in> set ''+-.'')"

text \<open>\<open>find_char c s\<close> is \<open>s.find(c)\<close>, with None for -1.\<close>

fun find_char :: "char \<Rightarrow> string \<Rightarrow> nat option" where
  "find_char c [] = None"
| "find_char c (x # xs) =
     (if x = c then Some 0 else map_option Suc (find_char c xs))"

definition split_scheme :: "string \<Rightarrow> string" where
  "split_scheme url =
     (case find_char (CHR '':'') url of
        None \<Rightarrow> url
      | Some i \<Rightarrow>
          if 0 < i \<and> ascii_alpha (hd url) \<and> list_all scheme_char (take i url)
          then drop (i + 1) url else url)"

definition splitnetloc :: "string \<Rightarrow> string" where
  "splitnetloc url = takeWhile (\<lambda>c. c \<notin> set ''/?#'') (drop 2 url)"

definition bracketed_host :: "string \<Rightarrow> string" where
  "bracketed_host netloc =
     takeWhile (\<lambda>c. c \<noteq> CHR '']'') (drop 1 (dropWhile (\<lambda>c. c \<noteq> CHR ''['') netloc))"

definition urlparse_netloc :: "(string \<Rightarrow> py_error option) \<Rightarrow> string \<Rightarrow> py_error + string" where
  "urlparse_netloc check_host url0 =
     (let url = filter (\<lambda>c. \<not> unsafe_url_byte c) (dropWhile c0_control_or_space url0);
          url = split_scheme url
      in if take 2 url = ''//'' then
           (let netloc = splitnetloc url
            in if (CHR ''['' \<in> set netloc \<and> CHR '']'' \<notin> set netloc)
                  \<or> (CHR '']'' \<in> set netloc \<and> CHR ''['' \<notin> set netloc)
               then Inl (ValueError ''Invalid IPv6 URL'')
               else if CHR ''['' \<in> set netloc \<and> CHR '']'' \<in> set netloc then
                 (case check_host (bracketed_host netloc) of
                    Some e \<Rightarrow> Inl e
                  | None \<Rightarrow> Inr netloc)
               else Inr netloc)
         else Inr [])"

section \<open>The Tier 1 blocklist (blocklist.py)\<close>

text \<open>
  \<open>blocked_domains\<close> and \<open>blocked_tlds\<close> are Python sets and the patterns a list.
  The sets are kept as lists; a \<open>for\<close> loop over a set visits its members in an
  order of Python's choosing, which here is the order of the list. Every pattern of
  the rule set is plain text (letters, digits, slashes and hyphens), compiled with
  \<open>re.IGNORECASE\<close>; searching such a pattern is a substring test up to case.
\<close>

record tier1_blocklist =
  blocked_domains :: "string list"
  blocked_tlds :: "string list"
  blocked_patterns :: "string list"

definition Tier1Blocklist :: tier1_blocklist where
  "Tier1Blocklist = \<lparr>
     blocked_domains = [
       ''pornhub.com'', ''xvideos.com'', ''xnxx.com'', ''redtube.com'', ''youporn.com'',
       ''tube8.com'', ''spankbang.com'', ''xhamster.com'', ''eporner.com'', ''motherless.com'',
       ''livejasmin.com'', ''chaturbate.com'', ''cam4.com'', ''stripchat.com'', ''camsoda.com'',
       ''bet365.com'', ''pokerstars.com'', ''bwin.com'', ''draftkings.com'', ''fanduel.com'',
       ''betfair.com'', ''casino.com'', ''bovada.lv'', ''888casino.com'', ''williamhill.com'',
       ''paddypower.com'', ''betway.com'', ''unibet.com'', ''betonline.ag'',
       ''totalwine.com'', ''wine.com'', ''drizly.com'', ''reservebar.com'',
       ''leafly.com'', ''weedmaps.com'', ''eaze.com'',
       ''cashnetusa.com'', ''checkintocash.com'', ''cashadvance.com'', ''speedycash.com'',
       ''moneylion.com'', ''advanceamerica.net'', ''titlemax.com'', ''checkngo.com'',
       ''amway.com'', ''herbalife.com'', ''monat.com'', ''lularoe.com'', ''itworks.com'',
       ''younique.com'', ''avon.com'', ''marykay.com'', ''arbonne.com'', ''beachbody.com'',
       ''rodan-fields.com'', ''pampered-chef.com'', ''usana.com'', ''isagenix.com'',
       ''stormfront.org'', ''dailystormer.name'', ''vdare.com'', ''americanrenaissance.com'',
       ''counter-currents.com'', ''theoccidentalobserver.net'', ''unz.com'',
       ''infowars.com'', ''prisonplanet.com'', ''naturalnews.com'', ''beforeitsnews.com'',
       ''veteranstoday.com'', ''rense.com'', ''davidicke.com'', ''thetruthseeker.co.uk'',
       ''conspiracyplanet.com'', ''rumormillnews.com'', ''qmap.pub'', ''qanon.pub'',
       ''thegatewaypundit.com'', ''tfrlive.com'', ''theepochtimes.com'',
       ''naturalnews.com'', ''mercola.com'', ''greenmedinfo.com'', ''tenpenny.com'',
       ''learntherisk.org'', ''childrenshealthdefense.org'', ''nvic.org'',
       ''ehow.com'', ''answers.com'', ''ask.com'', ''answerbag.com'', ''chacha.com'',
       ''mahalo.com'', ''wikihow.com'', ''buzzle.com'', ''listverse.com''],
     blocked_tlds = [
       ''.xxx'', ''.adult'', ''.porn'', ''.sex'', ''.sexy'', ''.casino'', ''.bet'',
       ''.poker'', ''.loan'', ''.loans'', ''.date'', ''.download'', ''.click''],
     blocked_patterns = [
       ''/porn/'', ''/xxx/'', ''/sex/'', ''/adult/'', ''/nude/'', ''/escort/'',
       ''/hookup/'', ''/camgirl/'', ''/onlyfans/'',
       ''/casino/'', ''/poker/'', ''/betting/'', ''/slots/'', ''/blackjack/'', ''/roulette/'',
       ''/buy-weed/'', ''/marijuana-delivery/'', ''/liquor-store/'', ''/order-alcohol/'',
       ''/payday-loan/'', ''/cash-advance/'', ''/title-loan/'', ''/quick-cash/'',
       ''/join-my-team/'', ''/be-your-own-boss/'', ''/work-from-home-opportunity/'',
       ''/flat-earth/'', ''/holocaust-hoax/'', ''/crisis-actors/'', ''/false-flag/'',
       ''/qanon/'', ''/moon-landing-fake/'', ''/chemtrails/'', ''/5g-conspiracy/'',
       ''/covid-hoax/'', ''/plandemic/'', ''/vaccine-injury/'', ''/anti-vax/'']
   \<rparr>"

definition pattern_search :: "string \<Rightarrow> string \<Rightarrow> bool" where
  "pattern_search pattern s = contains (lower pattern) (lower s)"

text \<open>
  The body of the \<open>try\<close> block of \<open>is_blocked\<close>: \<open>Inl\<close> is an exception raised
  inside it, \<open>Inr\<close> the pair it returns.
\<close>

definition is_blocked_try ::
  "(string \<Rightarrow> py_error option) \<Rightarrow> tier1_blocklist \<Rightarrow> string \<Rightarrow> py_error + (bool \<times> string option)" where
  "is_blocked_try check_host bl url =
     (case urlparse_netloc check_host (lower url) of
        Inl e \<Rightarrow> Inl e
      | Inr netloc \<Rightarrow>
          (let domain = (if startswith netloc ''www.'' then drop 4 netloc else netloc)
           in if domain \<in> set (blocked_domains bl)
              then Inr (True, Some (''Blocked domain: '' @ domain))
              else
                (case find (\<lambda>blocked. endswith domain (CHR ''.'' # blocked) \<or> domain = blocked)
                        (blocked_domains bl) of
                   Some blocked \<Rightarrow> Inr (True, Some (''Blocked domain: '' @ blocked))
                 | None \<Rightarrow>
                     (case find (\<lambda>tld. endswith domain tld) (blocked_tlds bl) of
                        Some tld \<Rightarrow> Inr (True, Some (''Blocked TLD: '' @ tld))
                      | None \<Rightarrow>
                          (let full_url = lower url
                           in case find (\<lambda>pattern. pattern_search pattern full_url)
                                     (blocked_patterns bl) of
                                Some pattern \<Rightarrow> Inr (True, Some (''Blocked pattern: '' @ pattern))
                              | None \<Rightarrow> Inr (False, None))))))"

definition is_blocked ::
  "(string \<Rightarrow> py_error option) \<Rightarrow> tier1_blocklist \<Rightarrow> string \<Rightarrow> bool \<times> string option" where
  "is_blocked check_host bl url =
     (case is_blocked_try check_host bl url of
        Inl e \<Rightarrow> (True, Some (''Invalid URL format: '' @ str_of_error e))
      | Inr r \<Rightarrow> r)"

section \<open>The crawler (crawler.py)\<close>

subsection \<open>URL normalisation and hashing\<close>

definition normalize_url :: "string \<Rightarrow> string" where
  "normalize_url url0 =
     (let url = strip url0;
          url = (if CHR ''#'' \<in> set url then takeWhile (\<lambda>c. c \<noteq> CHR ''#'') url else url);
          url = (if \<not> (startswith url ''http://'' \<or> startswith url ''https://'')
                 then ''https://'' @ url else url)
      in url)"

text \<open>
  \<open>url.encode()\<close> is the UTF-8 encoding: one byte below 128, two bytes for the
  code points 128 to 255. The digest itself, \<open>hashlib.sha256(...).hexdigest()\<close>, is
  the parameter \<open>sha256_hex\<close>.
\<close>

definition utf8_encode :: "string \<Rightarrow> string" where
  "utf8_encode s =
     concat (map (\<lambda>c. let n = (of_char c :: nat)
                       in if n < 128 then [c]
                          else [char_of (192 + n div 64), char_of (128 + n mod 64)]) s)"

definition get_url_hash :: "(string \<Rightarrow> string) \<Rightarrow> string \<Rightarrow> string" where
  "get_url_hash sha256_hex url = sha256_hex (utf8_encode url)"

section \<open>The frontier store (redis\_manager.py)\<close>

text \<open>
  \<open>RedisManager\<close> keeps the list \<open>crawler:queue\<close> and the set \<open>crawler:queue:set\<close>.
  \<open>LPUSH\<close> adds at the head of the list and \<open>RPOP\<close> takes from its end. Every client
  call sits in a \<open>try\<close> block; a call that raises is modelled by a flag of the
  operation, and has no effect on the store.
\<close>

record frontier_store =
  queue :: "string list"
  dedup :: "string set"

datatype redis_error = ConnectionError

definition sadd :: "bool \<Rightarrow> string \<Rightarrow> frontier_store \<Rightarrow> redis_error + (bool \<times> frontier_store)" where
  "sadd raises url s =
     (if raises then Inl ConnectionError
      else if url \<in> dedup s then Inr (False, s)
      else Inr (True, s\<lparr>dedup := insert url (dedup s)\<rparr>))"

definition lpush :: "bool \<Rightarrow> string \<Rightarrow> frontier_store \<Rightarrow> redis_error + frontier_store" where
  "lpush raises url s =
     (if raises then Inl ConnectionError else Inr (s\<lparr>queue := url # queue s\<rparr>))"

definition rpop :: "bool \<Rightarrow> frontier_store \<Rightarrow> redis_error + (string option \<times> frontier_store)" where
  "rpop raises s =
     (if raises then Inl ConnectionError
      else if queue s = [] then Inr (None, s)
      else Inr (Some (last (queue s)), s\<lparr>queue := butlast (queue s)\<rparr>))"

definition enqueue_url :: "bool \<Rightarrow> bool \<Rightarrow> string \<Rightarrow> frontier_store \<Rightarrow> bool \<times> frontier_store" where
  "enqueue_url sadd_raises lpush_raises url s =
     (case sadd sadd_raises url s of
        Inl e \<Rightarrow> (False, s)
      | Inr (added, s1) \<Rightarrow>
          if added then
            (case lpush lpush_raises url s1 of
               Inl e \<Rightarrow> (False, s1)
             | Inr s2 \<Rightarrow> (True, s2))
          else (False, s1))"

definition dequeue_url :: "bool \<Rightarrow> frontier_store \<Rightarrow> string option \<times> frontier_store" where
  "dequeue_url rpop_raises s =
     (case rpop rpop_raises s of
        Inl e \<Rightarrow> (None, s)
      | Inr (url, s1) \<Rightarrow> (url, s1))"

text \<open>A run of the store: any sequence of enqueue and dequeue calls.\<close>

datatype store_op = Enqueue bool bool string | Dequeue bool

fun store_step :: "store_op \<Rightarrow> frontier_store \<Rightarrow> frontier_store" where
  "store_step (Enqueue f g url) s = snd (enqueue_url f g url s)"
| "store_step (Dequeue f) s = snd (dequeue_url f s)"

fun store_run :: "store_op list \<Rightarrow> frontier_store \<Rightarrow> frontier_store" where
  "store_run [] s = s"
| "store_run (x # xs) s = store_run xs (store_step x s)"

section \<open>Admission to the frontier (Crawler.queue\_url)\<close>

text \<open>
  The crawler holds the frontier store, the database and its statistics. Of the
  database, \<open>queue_url\<close> reads the \<open>url_hash\<close> column of \<open>pages\<close>; of the
  statistics, it counts \<open>urls_queued\<close>.
\<close>

record crawler =
  redis :: frontier_store
  page_hashes :: "string set"
  urls_queued :: nat

definition is_url_crawled :: "crawler \<Rightarrow> string \<Rightarrow> bool" where
  "is_url_crawled st url_hash = (url_hash \<in> page_hashes st)"

definition queue_url ::
  "(string \<Rightarrow> py_error option) \<Rightarrow> (string \<Rightarrow> string) \<Rightarrow> tier1_blocklist \<Rightarrow> bool \<Rightarrow> bool \<Rightarrow>
   string \<Rightarrow> crawler \<Rightarrow> bool \<times> crawler" where
  "queue_url check_host sha256_hex bl sadd_raises lpush_raises url st =
     (let (blocked, reason) = is_blocked check_host bl url
      in if blocked then (False, st)
         else
           (let url_hash = get_url_hash sha256_hex url
            in if is_url_crawled st url_hash then (False, st)
               else
                 (let (added, r) = enqueue_url sadd_raises lpush_raises url (redis st)
                  in (True, st\<lparr>redis := r, urls_queued := urls_queued st + 1\<rparr>))))"

section \<open>The media literacy scorer (media\_literacy\_scorer.py)\<close>

subsection \<open>The keyword gate\<close>

text \<open>The list \<open>red_flag_keywords\<close>, in the order and with the entries of the source.\<close>

definition red_flag_keywords :: "string list" where
  "red_flag_keywords = [
      ''miracle cure'', ''doctors hate'', ''one weird trick'',
      ''scientists don't want you to know'', ''big pharma'', ''they don't want you to'',
      ''shocking truth'', ''government hiding'', ''mainstream media lies'',
      ''breakthrough discovery'', ''suppressed information'', ''what they won't tell you'',
      ''banned by'', ''secret that'', ''industry doesn't want'', ''proven to cure'',
      ''guaranteed results'', ''new world order'', ''illuminati'', ''deep state'',
      ''false flag'', ''crisis actors'', ''hoax'', ''cover up'', ''conspiracy'',
      ''they're hiding'', ''flat earth'', ''earth is flat'', ''globe lie'',
      ''moon landing fake'', ''moon landing hoax'', ''never went to moon'', ''chemtrails'',
      ''chem trails'', ''spraying chemicals'', ''5g causes'', ''5g conspiracy'',
      ''5g radiation'', ''vaccines cause autism'', ''autism from vaccines'',
      ''vaccine injury'', ''anti-vax'', ''anti-vaxx'', ''vaccine danger'',
      ''vaccine poison'', ''big pharma conspiracy'', ''pharmaceutical conspiracy'',
      ''qanon'', ''wwg1wga'', ''trust the plan'', ''the storm'', ''adrenochrome'',
      ''pizzagate'', ''pedophile ring'', ''covid hoax'', ''plandemic'', ''scamdemic'',
      ''covid fake'', ''coronavirus hoax'', ''virus doesn't exist'', ''microchip vaccine'',
      ''vaccine tracking'', ''bill gates microchip'', ''lizard people'', ''reptilians'',
      ''shape shifters'', ''sandy hook hoax'', ''parkland hoax'', ''shooting hoax'',
      ''holocaust didn't happen'', ''holocaust denial'', ''holocaust hoax'',
      ''9/11 inside job'', ''9/11 controlled demolition'', ''twin towers explosives'',
      ''agenda 21'', ''agenda 2030'', ''un takeover'', ''jade helm'', ''fema camps'',
      ''martial law coming'', ''crisis actor'', ''paid protesters'', ''soros funded'',
      ''george soros conspiracy'', ''soros controls'', ''rothschild conspiracy'',
      ''banking elite conspiracy'', ''freemasons control'', ''satanic ritual'',
      ''satanic panic'', ''be your own boss'', ''financial freedom'',
      ''work from home unlimited'', ''passive income guaranteed'', ''join my team'',
      ''ground floor opportunity'', ''unlimited earning potential'', ''retired at 30'',
      ''detox'', ''toxins'', ''cleanse'', ''boost your immune system'',
      ''natural alternative to'', ''big pharma doesn't want'',
      ''FDA doesn't approve because'', ''alternative to chemotherapy'', ''flat earth'',
      ''moon landing fake'', ''holocaust hoax'', ''crisis actors'',
      ''false flag operation'', ''correlation equals causation'', ''100% of people'',
      ''studies show'', ''experts agree'', ''research proves'', ''science says'']"

text \<open>
  \<open>needs_analysis\<close> returns the pair of the decision and the matched keywords. The
  log lines read \<open>domain[:50]\<close> and change nothing.
\<close>

definition needs_analysis :: "string \<Rightarrow> string \<Rightarrow> bool \<times> string list" where
  "needs_analysis content domain =
     (if content = [] \<or> length content < 100 then (False, [])
      else
        (let content_lower = lower content;
             matched = filter (\<lambda>keyword. contains keyword content_lower) red_flag_keywords;
             needs_ai = (2 \<le> length matched)
         in (needs_ai, matched)))"

subsection \<open>JSON values\<close>

text \<open>
  What \<open>response.json()\<close> and \<open>json.loads\<close> return. A number is an integer or a
  float; a finite float is the rational number it stands for, and \<open>json.loads\<close> also
  accepts \<open>NaN\<close>, \<open>Infinity\<close> and \<open>-Infinity\<close>. An object is the list of its members.
\<close>

datatype json =
    JNull
  | JBool bool
  | JInt int
  | JFloat rat
  | JNaN
  | JInf
  | JNegInf
  | JStr string
  | JArr "json list"
  | JObj "(string \<times> json) list"

text \<open>\<open>d.get(key, default)\<close>; only a \<open>dict\<close> has the method.\<close>

definition json_get :: "json \<Rightarrow> string \<Rightarrow> json \<Rightarrow> py_error + json" where
  "json_get d key dflt =
     (case d of
        JObj members \<Rightarrow> (case map_of members key of None \<Rightarrow> Inr dflt | Some v \<Rightarrow> Inr v)
      | _ \<Rightarrow> Inl AttributeError)"

text \<open>Truth value of a JSON value, as \<open>if not choices\<close> reads it.\<close>

fun truthy :: "json \<Rightarrow> bool" where
  "truthy JNull = False"
| "truthy (JBool b) = b"
| "truthy (JInt n) = (n \<noteq> 0)"
| "truthy (JFloat r) = (r \<noteq> 0)"
| "truthy JNaN = True"
| "truthy JInf = True"
| "truthy JNegInf = True"
| "truthy (JStr s) = (s \<noteq> [])"
| "truthy (JArr xs) = (xs \<noteq> [])"
| "truthy (JObj members) = (members \<noteq> [])"

text \<open>\<open>x[0]\<close>: the first element of a list or string; a \<open>dict\<close> with string keys has no key 0.\<close>

fun json_first :: "json \<Rightarrow> py_error + json" where
  "json_first (JArr []) = Inl IndexError"
| "json_first (JArr (x # xs)) = Inr x"
| "json_first (JStr []) = Inl IndexError"
| "json_first (JStr (c # cs)) = Inr (JStr [c])"
| "json_first (JObj members) = Inl (KeyError ''0'')"
| "json_first _ = Inl TypeError"

subsection \<open>Numbers: comparison, min, max and int()\<close>

text \<open>
  The values a number can take: a rational (an \<open>int\<close>, a \<open>bool\<close> or a finite
  float), or one of the three special floats. \<open>num_less\<close> is Python's \<open><\<close>, with
  every comparison against NaN false.
\<close>

datatype pynum = Fin rat | NaN | PosInf | NegInf

fun num_less :: "pynum \<Rightarrow> pynum \<Rightarrow> bool" where
  "num_less NaN _ = False"
| "num_less _ NaN = False"
| "num_less (Fin a) (Fin b) = (a < b)"
| "num_less (Fin a) PosInf = True"
| "num_less (Fin a) NegInf = False"
| "num_less PosInf _ = False"
| "num_less NegInf (Fin b) = True"
| "num_less NegInf PosInf = True"
| "num_less NegInf NegInf = False"

definition num_le :: "pynum \<Rightarrow> pynum \<Rightarrow> bool" where
  "num_le a b = (a \<noteq> NaN \<and> b \<noteq> NaN \<and> \<not> num_less b a)"

text \<open>
  \<open>min(a, b)\<close> and \<open>max(a, b)\<close> return one of their arguments: the first, unless
  the second is strictly smaller (or larger). \<open>int(x)\<close> cuts towards zero; NaN
  raises \<open>ValueError\<close> and an infinity \<open>OverflowError\<close>. Anything but a number
  raises \<open>TypeError\<close> in a comparison.
\<close>

fun num_of_json :: "json \<Rightarrow> py_error + pynum" where
  "num_of_json (JInt n) = Inr (Fin (of_int n))"
| "num_of_json (JBool b) = Inr (Fin (if b then 1 else 0))"
| "num_of_json (JFloat r) = Inr (Fin r)"
| "num_of_json JNaN = Inr NaN"
| "num_of_json JInf = Inr PosInf"
| "num_of_json JNegInf = Inr NegInf"
| "num_of_json _ = Inl TypeError"

definition json_min :: "json \<Rightarrow> json \<Rightarrow> py_error + json" where
  "json_min a b =
     (case (num_of_json a, num_of_json b) of
        (Inr x, Inr y) \<Rightarrow> Inr (if num_less y x then b else a)
      | _ \<Rightarrow> Inl TypeError)"

definition json_max :: "json \<Rightarrow> json \<Rightarrow> py_error + json" where
  "json_max a b =
     (case (num_of_json a, num_of_json b) of
        (Inr x, Inr y) \<Rightarrow> Inr (if num_less x y then b else a)
      | _ \<Rightarrow> Inl TypeError)"

fun py_int :: "pynum \<Rightarrow> py_error + int" where
  "py_int (Fin r) = Inr (if 0 \<le> r then \<lfloor>r\<rfloor> else \<lceil>r\<rceil>)"
| "py_int NaN = Inl (ValueError ''cannot convert float NaN to integer'')"
| "py_int _ = Inl (OtherError ''cannot convert float infinity to integer'')"

definition json_int :: "json \<Rightarrow> py_error + int" where
  "json_int v = (case num_of_json v of Inl e \<Rightarrow> Inl e | Inr n \<Rightarrow> py_int n)"

text \<open>
  The validation of the score:
  \<open>if not (0 <= score <= 100): score = max(0, min(100, score))\<close>. The result is the
  value of \<open>score\<close> after it.
\<close>

definition score_in_range :: "json \<Rightarrow> py_error + bool" where
  "score_in_range v =
     (case num_of_json v of
        Inl e \<Rightarrow> Inl e
      | Inr score \<Rightarrow> Inr (num_le (Fin 0) score \<and> num_le score (Fin 100)))"

definition validate_score :: "json \<Rightarrow> py_error + json" where
  "validate_score v =
     (case score_in_range v of
        Inl e \<Rightarrow> Inl e
      | Inr ok \<Rightarrow>
          if \<not> ok then
            (case json_min (JInt 100) v of
               Inl e \<Rightarrow> Inl e
             | Inr m \<Rightarrow> json_max (JInt 0) m)
          else Inr v)"

subsection \<open>The call to the model\<close>

text \<open>
  The scorer object: the API key read from the environment and the counters
  \<open>stats\<close>.
\<close>

record media_stats =
  total_calls :: nat
  skipped_neutral :: nat
  analyzed :: nat
  errors :: nat
  fallback_used :: nat

record media_scorer =
  api_key :: "string option"
  stats :: media_stats

definition primary_model :: string where
  "primary_model = ''google/gemini-2.5-flash-lite''"

definition fallback_model :: string where
  "fallback_model = ''openrouter/auto''"

text \<open>
  \<open>_build_analysis_prompt\<close> puts the title (or \<open>No title\<close>), the domain and the
  first 2500 characters of the content into a fixed text. The prompt is kept as
  these three parts.
\<close>

record prompt =
  prompt_title :: string
  prompt_domain :: string
  prompt_text :: string

definition build_analysis_prompt :: "string \<Rightarrow> string \<Rightarrow> string option \<Rightarrow> prompt" where
  "build_analysis_prompt content domain title =
     \<lparr>prompt_title = (case title of None \<Rightarrow> ''No title''
                       | Some t \<Rightarrow> if t = [] then ''No title'' else t),
      prompt_domain = domain,
      prompt_text = take 2500 content\<rparr>"

text \<open>
  \<open>_call_openrouter\<close>. The HTTP exchange (\<open>requests.post\<close>, \<open>raise_for_status\<close>,
  \<open>response.json()\<close>) is the parameter \<open>http\<close>: it yields the decoded body, or
  None when any of the three raises. The lines that log the token usage read
  \<open>result['usage']\<close> and call \<open>get\<close> on it; whatever they raise is caught as
  well, and the call returns None.
\<close>

definition log_usage :: "json \<Rightarrow> py_error + unit" where
  "log_usage result =
     (case result of
        JObj members \<Rightarrow>
          (case map_of members ''usage'' of
             None \<Rightarrow> Inr ()
           | Some usage \<Rightarrow>
               (case json_get usage ''prompt_tokens'' (JInt 0) of
                  Inl e \<Rightarrow> Inl e
                | Inr p \<Rightarrow> Inr ()))
      | JArr xs \<Rightarrow> (if JStr ''usage'' \<in> set xs then Inl TypeError else Inr ())
      | JStr s \<Rightarrow> (if contains ''usage'' s then Inl TypeError else Inr ())
      | _ \<Rightarrow> Inl TypeError)"

definition call_openrouter ::
  "(prompt \<Rightarrow> string \<Rightarrow> json option) \<Rightarrow> media_scorer \<Rightarrow> prompt \<Rightarrow> string \<Rightarrow> json option" where
  "call_openrouter http scorer p model =
     (case api_key scorer of
        None \<Rightarrow> None
      | Some key \<Rightarrow>
          if key = [] then None
          else
            (case http p model of
               None \<Rightarrow> None
             | Some result \<Rightarrow>
                 (case log_usage result of
                    Inl e \<Rightarrow> None
                  | Inr u \<Rightarrow> Some result)))"

subsection \<open>Reading the answer\<close>

text \<open>
  \<open>s.split(sep)\<close> for a separator that is not empty: the pieces between the
  occurrences of the separator, found from left to right. The counter is the number
  of characters of a found separator still to be skipped.
\<close>

fun py_split_aux :: "string \<Rightarrow> nat \<Rightarrow> string \<Rightarrow> string \<Rightarrow> string list" where
  "py_split_aux sep k acc [] = [rev acc]"
| "py_split_aux sep (Suc k) acc (c # cs) = py_split_aux sep k acc cs"
| "py_split_aux sep 0 acc (c # cs) =
     (if startswith (c # cs) sep then rev acc # py_split_aux sep (length sep - 1) [] cs
      else py_split_aux sep 0 (c # acc) cs)"

definition py_split :: "string \<Rightarrow> string \<Rightarrow> string list" where
  "py_split sep s = py_split_aux sep 0 [] s"

definition strip_code_fence :: "string \<Rightarrow> py_error + string" where
  "strip_code_fence content_text =
     (if startswith content_text ''```'' then
        (case py_split ''```'' content_text of
           p0 # p1 # ps \<Rightarrow>
             Inr (strip (if startswith p1 ''json'' then drop 4 p1 else p1))
         | _ \<Rightarrow> Inl IndexError)
      else Inr content_text)"

definition str_of_json :: "json \<Rightarrow> py_error + string" where
  "str_of_json v = (case v of JStr s \<Rightarrow> Inr s | _ \<Rightarrow> Inl AttributeError)"

text \<open>
  The \<open>try\<close> block of \<open>analyze_with_openrouter\<close>, in two steps: up to the text
  handed to \<open>json.loads\<close> (needed again by the handler of \<open>JSONDecodeError\<close>), and
  from the parsed analysis to the score and the details. \<open>json.loads\<close> is the
  parameter \<open>json_loads\<close>: the value parsed, or the exception raised.
\<close>

definition response_text :: "json \<Rightarrow> py_error + string" where
  "response_text response =
     (case json_get response ''choices'' (JArr []) of
        Inl e \<Rightarrow> Inl e
      | Inr choices \<Rightarrow>
          if \<not> truthy choices then Inl (ValueError ''No choices in response'')
          else
            (case json_first choices of
               Inl e \<Rightarrow> Inl e
             | Inr choice \<Rightarrow>
                 (case json_get choice ''message'' (JObj []) of
                    Inl e \<Rightarrow> Inl e
                  | Inr message \<Rightarrow>
                      (case json_get message ''content'' (JStr []) of
                         Inl e \<Rightarrow> Inl e
                       | Inr c \<Rightarrow>
                           (case str_of_json c of
                              Inl e \<Rightarrow> Inl e
                            | Inr text \<Rightarrow> strip_code_fence (strip text))))))"

definition analysis_details :: "json \<Rightarrow> json \<Rightarrow> json \<Rightarrow> py_error + (string \<times> json) list" where
  "analysis_details response analysis score =
     (case (json_get response ''model'' (JStr primary_model),
            json_get analysis ''major_red_flags'' (JArr []),
            json_get analysis ''minor_concerns'' (JArr []),
            json_get analysis ''explanation'' (JStr []),
            json_get analysis ''context_box_needed'' (JBool False),
            json_get analysis ''context_box_text'' (JStr [])) of
        (Inr model_used, Inr major, Inr minor, Inr explanation, Inr needed, Inr box) \<Rightarrow>
          Inr [(''status'', JStr ''analyzed''),
               (''model_used'', model_used),
               (''major_red_flags'', major),
               (''minor_concerns'', minor),
               (''explanation'', explanation),
               (''context_box_needed'', needed),
               (''context_box_text'', box),
               (''raw_score'', score)]
      | _ \<Rightarrow> Inl AttributeError)"

definition read_analysis ::
  "(string \<Rightarrow> py_error + json) \<Rightarrow> json \<Rightarrow> string \<Rightarrow> py_error + (int \<times> (string \<times> json) list)" where
  "read_analysis json_loads response content_text =
     (case json_loads content_text of
        Inl e \<Rightarrow> Inl e
      | Inr analysis \<Rightarrow>
          (case json_get analysis ''credibility_score'' (JInt 50) of
             Inl e \<Rightarrow> Inl e
           | Inr raw \<Rightarrow>
               (case validate_score raw of
                  Inl e \<Rightarrow> Inl e
                | Inr score \<Rightarrow>
                    (case analysis_details response analysis score of
                       Inl e \<Rightarrow> Inl e
                     | Inr details \<Rightarrow>
                         (case json_int score of
                            Inl e \<Rightarrow> Inl e
                          | Inr n \<Rightarrow> Inr (n, details))))))"

definition count_error :: "media_scorer \<Rightarrow> media_scorer" where
  "count_error scorer = scorer\<lparr>stats := (stats scorer)\<lparr>errors := errors (stats scorer) + 1\<rparr>\<rparr>"

definition analyze_with_openrouter ::
  "(prompt \<Rightarrow> string \<Rightarrow> json option) \<Rightarrow> (string \<Rightarrow> py_error + json) \<Rightarrow> media_scorer \<Rightarrow>
   string \<Rightarrow> string \<Rightarrow> string option \<Rightarrow> (int \<times> (string \<times> json) list) \<times> media_scorer" where
  "analyze_with_openrouter http json_loads scorer0 content domain title =
     (let p = build_analysis_prompt content domain title;
          first = call_openrouter http scorer0 p primary_model;
          (response, scorer) =
            (case first of
               None \<Rightarrow>
                 (call_openrouter http scorer0 p fallback_model,
                  scorer0\<lparr>stats := (stats scorer0)\<lparr>fallback_used :=
                    fallback_used (stats scorer0) + 1\<rparr>\<rparr>)
             | Some r \<Rightarrow> (first, scorer0))
      in case response of
           None \<Rightarrow>
             ((50, [(''status'', JStr ''error''),
                    (''error'', JStr ''API unavailable''),
                    (''fallback_reason'', JStr ''Both models failed'')]),
              count_error scorer)
         | Some resp \<Rightarrow>
             (case response_text resp of
                Inl e \<Rightarrow>
                  ((50, [(''status'', JStr ''error''), (''error'', JStr (str_of_error e))]),
                   count_error scorer)
              | Inr content_text \<Rightarrow>
                  (case read_analysis json_loads resp content_text of
                     Inl JSONDecodeError \<Rightarrow>
                       ((50, [(''status'', JStr ''error''),
                              (''error'', JStr ''Invalid JSON response''),
                              (''raw_response'', JStr (take 200 content_text))]),
                        count_error scorer)
                   | Inl e \<Rightarrow>
                       ((50, [(''status'', JStr ''error''), (''error'', JStr (str_of_error e))]),
                        count_error scorer)
                   | Inr (score, details) \<Rightarrow>
                       ((score, details),
                        scorer\<lparr>stats := (stats scorer)\<lparr>analyzed :=
                          analyzed (stats scorer) + 1\<rparr>\<rparr>))))"

definition calculate_media_literacy_score ::
  "(prompt \<Rightarrow> string \<Rightarrow> json option) \<Rightarrow> (string \<Rightarrow> py_error + json) \<Rightarrow> media_scorer \<Rightarrow>
   string \<Rightarrow> string \<Rightarrow> string option \<Rightarrow> (int \<times> (string \<times> json) list) \<times> media_scorer" where
  "calculate_media_literacy_score http json_loads scorer0 content domain title =
     (let scorer = scorer0\<lparr>stats := (stats scorer0)\<lparr>total_calls :=
                     total_calls (stats scorer0) + 1\<rparr>\<rparr>;
          (needs_ai, matched_keywords) = needs_analysis content domain
      in if \<not> needs_ai then
           ((50, [(''status'', JStr ''neutral''),
                  (''reason'', JStr ''No red flag keywords detected''),
                  (''skipped_analysis'', JBool True)]),
            scorer\<lparr>stats := (stats scorer)\<lparr>skipped_neutral :=
              skipped_neutral (stats scorer) + 1\<rparr>\<rparr>)
         else
           (let ((score, details), scorer') =
                  analyze_with_openrouter http json_loads scorer content domain title
            in ((score, details @ [(''triggered_by'', JArr (map JStr (take 10 matched_keywords)))]),
                scorer')))"

text \<open>
  The response \<open>analyze_with_openrouter\<close> goes on with: that of the primary model,
  or else that of the fallback model.
\<close>

definition model_response ::
  "(prompt \<Rightarrow> string \<Rightarrow> json option) \<Rightarrow> media_scorer \<Rightarrow> prompt \<Rightarrow> json option" where
  "model_response http scorer p =
     (case call_openrouter http scorer p primary_model of
        None \<Rightarrow> call_openrouter http scorer p fallback_model
      | Some r \<Rightarrow> Some r)"

section \<open>Python floats\<close>

text \<open>
  A Python \<open>float\<close> is an IEEE 754 double. A finite double is the rational number
  it stands for, and an operation on doubles is the exact operation followed by
  \<open>fl\<close>, the rounding to the nearest number with 53 binary digits, ties to the
  even one. The exponent is not limited here: the scores are at most 100 in
  absolute value, far inside the range in which a double has 53 digits.
\<close>

definition pow2 :: "int \<Rightarrow> rat" where
  "pow2 k = (if 0 \<le> k then 2 ^ nat k else 1 / 2 ^ nat (- k))"

text \<open>\<open>ilog2 x\<close> is the exponent \<open>e\<close> with \<open>2^e \<le> x < 2^(e+1)\<close>, for a positive \<open>x\<close>.\<close>

definition ilog2 :: "rat \<Rightarrow> int" where
  "ilog2 x =
     (let (p, q) = quotient_of x;
          d = bitlen p - bitlen q
      in if pow2 d \<le> x then d else d - 1)"

definition round_half_even :: "rat \<Rightarrow> int" where
  "round_half_even x =
     (let f = \<lfloor>x\<rfloor>;
          d = x - of_int f
      in if d < 1 / 2 then f
         else if 1 / 2 < d then f + 1
         else if even f then f else f + 1)"

definition fl :: "rat \<Rightarrow> rat" where
  "fl x =
     (if x = 0 then 0
      else
        (let a = \<bar>x\<bar>;
             ulp = pow2 (ilog2 a - 52)
         in sgn x * of_int (round_half_even (a / ulp)) * ulp))"

text \<open>
  The operations of the source on floats. \<open>float_of_int\<close> is the conversion that
  \<open>int * float\<close> and \<open>int / int\<close> apply to an integer; a float literal such as
  \<open>0.30\<close> is the double nearest to the decimal number; \<open>round(x)\<close> of a float
  rounds to the nearest integer, ties to the even one; \<open>int(x)\<close> cuts towards
  zero.
\<close>

definition float_of_int :: "int \<Rightarrow> rat" where
  "float_of_int n = fl (of_int n)"

definition float_add :: "rat \<Rightarrow> rat \<Rightarrow> rat" where
  "float_add a b = fl (a + b)"

definition float_mul :: "rat \<Rightarrow> rat \<Rightarrow> rat" where
  "float_mul a b = fl (a * b)"

definition float_div :: "rat \<Rightarrow> rat \<Rightarrow> rat" where
  "float_div a b = fl (a / b)"

definition float_literal :: "rat \<Rightarrow> rat" where
  "float_literal decimal = fl decimal"

definition py_round :: "rat \<Rightarrow> int" where
  "py_round x = round_half_even x"

definition py_trunc :: "rat \<Rightarrow> int" where
  "py_trunc r = (if 0 \<le> r then \<lfloor>r\<rfloor> else \<lceil>r\<rceil>)"

section \<open>The composite scorer (composite\_scorer.py)\<close>

subsection \<open>The quality score\<close>

text \<open>
  \<open>calculate_quality_score\<close> adds the points of its helpers. The helpers that
  read the content (\<open>_calculate_readability\<close>, \<open>_calculate_content_length_score\<close>,
  \<open>_calculate_structural_quality\<close>, the grammar and uniqueness points) and the one
  that reads the database (\<open>_get_domain_age_score\<close>) are parameters, gathered in a
  record. A \<open>details\<close> dictionary is the list of its items, in the order they are
  set.
\<close>

record quality_helpers =
  calculate_readability :: "string \<Rightarrow> int"
  calculate_content_length_score :: "string \<Rightarrow> int"
  calculate_structural_quality :: "string \<Rightarrow> int"
  grammar_uniqueness :: "string \<Rightarrow> int"
  get_domain_age_score :: "string \<Rightarrow> int"

definition calculate_quality_score ::
  "quality_helpers \<Rightarrow> string \<Rightarrow> string \<Rightarrow> string option \<Rightarrow> int \<times> (string \<times> json) list" where
  "calculate_quality_score h content domain title =
     (if content = [] \<or> length (strip content) < 50
      then (0, [(''reason'', JStr ''content_too_short'')])
      else
        (let readability = calculate_readability h content;
             total_score = 0 + readability;
             length_score = calculate_content_length_score h content;
             total_score = total_score + length_score;
             structural = calculate_structural_quality h content;
             total_score = total_score + structural;
             grammar_score = grammar_uniqueness h content;
             total_score = total_score + grammar_score;
             technical_score = 0;
             has_ssl = contains ''https://'' (lower domain);
             technical_score = (if has_ssl then technical_score + 10 else technical_score);
             domain_age_score = get_domain_age_score h domain;
             technical_score = technical_score + domain_age_score;
             technical_score = technical_score + 5;
             total_score = total_score + technical_score
         in (min 100 total_score,
             [(''readability'', JInt readability),
              (''content_length'', JInt length_score),
              (''structural_quality'', JInt structural),
              (''grammar_uniqueness'', JInt grammar_score),
              (''has_ssl'', JBool has_ssl),
              (''domain_age_score'', JInt domain_age_score),
              (''mobile_optimized'', JBool True),
              (''total'', JInt (min 100 total_score))])))"

text \<open>
  The domain \<open>Crawler.save_page\<close> stores with a page: the network location of its
  URL. An exception of \<open>urlparse\<close> is caught there and the page is not saved.
\<close>

definition save_page_domain :: "(string \<Rightarrow> py_error option) \<Rightarrow> string \<Rightarrow> py_error + string" where
  "save_page_domain check_host url = urlparse_netloc check_host url"

subsection \<open>The organisational blocklist\<close>

text \<open>
  A row of the table \<open>org_blocklist\<close>, and the part of the scorer's state the
  override reads and writes: the table and the cache \<open>_blocklist_cache\<close>.
\<close>

record org_row =
  splc_flagged :: bool
  aclu_flagged :: bool
  cair_flagged :: bool
  adl_flagged :: bool
  other_org_flagged :: bool
  reason :: "string option"

text \<open>\<open>s.replace('www.', '')\<close>: every occurrence is removed, from left to right.\<close>

fun remove_www :: "nat \<Rightarrow> string \<Rightarrow> string" where
  "remove_www k [] = []"
| "remove_www (Suc k) (c # cs) = remove_www k cs"
| "remove_www 0 (c # cs) =
     (if startswith (c # cs) ''www.'' then remove_www 3 cs else c # remove_www 0 cs)"

definition clean_domain :: "(string \<Rightarrow> py_error option) \<Rightarrow> string \<Rightarrow> py_error + string" where
  "clean_domain check_host domain =
     (case urlparse_netloc check_host
             (if contains ''://'' domain then domain else ''https://'' @ domain) of
        Inl e \<Rightarrow> Inl e
      | Inr netloc \<Rightarrow> Inr (remove_www 0 (lower netloc)))"

fun join :: "string \<Rightarrow> string list \<Rightarrow> string" where
  "join sep [] = []"
| "join sep [x] = x"
| "join sep (x # y # ys) = x @ sep @ join sep (y # ys)"

definition block_reason_of :: "org_row \<Rightarrow> string" where
  "block_reason_of row =
     (let flags = (if splc_flagged row then [''SPLC''] else [])
                  @ (if aclu_flagged row then [''ACLU''] else [])
                  @ (if cair_flagged row then [''CAIR''] else [])
                  @ (if adl_flagged row then [''ADL''] else [])
                  @ (if other_org_flagged row then [''Other''] else []);
          block_reason = ''Flagged by: '' @ join '', '' flags
      in case reason row of
           None \<Rightarrow> block_reason
         | Some r \<Rightarrow> if r = [] then block_reason else block_reason @ '' - '' @ r)"

text \<open>
  \<open>check_org_blocklist\<close>. The URL is parsed before the \<open>try\<close> block, so an
  exception of \<open>urlparse\<close> leaves the method. Inside the block a failing query
  (the flag \<open>query_raises\<close>) is answered by \<open>(False, None)\<close> without an entry in
  the cache.
\<close>

definition check_org_blocklist ::
  "(string \<Rightarrow> py_error option) \<Rightarrow> (string \<rightharpoonup> org_row) \<Rightarrow> bool \<Rightarrow>
   (string \<rightharpoonup> bool \<times> string option) \<Rightarrow> string \<Rightarrow>
   py_error + ((bool \<times> string option) \<times> (string \<rightharpoonup> bool \<times> string option))" where
  "check_org_blocklist check_host org_blocklist query_raises cache domain =
     (case clean_domain check_host domain of
        Inl e \<Rightarrow> Inl e
      | Inr domain_clean \<Rightarrow>
          (case cache domain_clean of
             Some cached \<Rightarrow> Inr (cached, cache)
           | None \<Rightarrow>
               if query_raises then Inr ((False, None), cache)
               else
                 (case org_blocklist domain_clean of
                    None \<Rightarrow> Inr ((False, None), cache(domain_clean \<mapsto> (False, None)))
                  | Some row \<Rightarrow>
                      if splc_flagged row \<or> aclu_flagged row \<or> cair_flagged row
                         \<or> adl_flagged row \<or> other_org_flagged row
                      then
                        (let result = (True, Some (block_reason_of row))
                         in Inr (result, cache(domain_clean \<mapsto> result)))
                      else Inr ((False, None), cache(domain_clean \<mapsto> (False, None))))))"

subsection \<open>The composite score\<close>

text \<open>
  The four other dimensions are computed by methods of the scorer; they are the
  parameters gathered in \<open>dimension_scorers\<close>. The Islamic alignment score is an
  \<open>int\<close> or a \<open>float\<close> (a weight reduced by a context factor is a float); the
  other scores are integers. \<open>freshness_age\<close> is the number of days
  \<open>(datetime.now() - crawled_at).days\<close>, or None when \<open>crawled_at\<close> is missing.
\<close>

datatype number = IntNum int | FloatNum rat

record dimension_scorers =
  calculate_islamic_alignment :: "string \<Rightarrow> string \<Rightarrow> number \<times> json"
  quality_score_of :: "string \<Rightarrow> string \<Rightarrow> string option \<Rightarrow> int \<times> (string \<times> json) list"
  calculate_authority_score :: "string \<Rightarrow> string \<Rightarrow> int \<times> json"
  media_literacy_score_of :: "string \<Rightarrow> string \<Rightarrow> string option \<Rightarrow> int \<times> json"
  calculate_equity_boost :: "string \<Rightarrow> int \<times> json"

text \<open>Scorers that return fixed scores, for the examples.\<close>

definition example_scorers :: "number \<Rightarrow> int \<Rightarrow> int \<Rightarrow> int \<Rightarrow> int \<Rightarrow> dimension_scorers" where
  "example_scorers islamic quality authority media equity =
     \<lparr>calculate_islamic_alignment = (\<lambda>content domain. (islamic, JObj [])),
      quality_score_of = (\<lambda>content domain title. (quality, [])),
      calculate_authority_score = (\<lambda>url domain. (authority, JObj [])),
      media_literacy_score_of = (\<lambda>content domain title. (media, JObj [])),
      calculate_equity_boost = (\<lambda>domain. (equity, JObj []))\<rparr>"

definition json_of_number :: "number \<Rightarrow> json" where
  "json_of_number x = (case x of IntNum n \<Rightarrow> JInt n | FloatNum r \<Rightarrow> JFloat r)"

text \<open>\<open>(islamic_score + 100) / 2\<close>: a true division, whose result is a float.\<close>

definition islamic_normalized_of :: "number \<Rightarrow> rat" where
  "islamic_normalized_of islamic_score =
     (case islamic_score of
        IntNum n \<Rightarrow> float_div (float_of_int (n + 100)) (float_of_int 2)
      | FloatNum r \<Rightarrow> float_div (float_add r (float_of_int 100)) (float_of_int 2))"

definition int_of_number :: "number \<Rightarrow> int" where
  "int_of_number x = (case x of IntNum n \<Rightarrow> n | FloatNum r \<Rightarrow> py_trunc r)"

definition freshness_of :: "int \<Rightarrow> int" where
  "freshness_of age_days =
     (if age_days < 30 then 15
      else if age_days < 90 then 10
      else if age_days < 365 then 5
      else 2)"

text \<open>
  The weighted sum and its rounding, as the source writes them: five products,
  added from left to right, then \<open>int(round(composite))\<close>.
\<close>

definition weighted_composite :: "rat \<Rightarrow> int \<Rightarrow> int \<Rightarrow> int \<Rightarrow> int \<Rightarrow> rat" where
  "weighted_composite islamic_normalized quality_score authority_score media_score equity_boost =
     float_add
       (float_add
          (float_add
             (float_add
                (float_mul islamic_normalized (float_literal (30 / 100)))
                (float_mul (float_of_int quality_score) (float_literal (25 / 100))))
             (float_mul (float_of_int authority_score) (float_literal (20 / 100))))
          (float_mul (float_of_int media_score) (float_literal (15 / 100))))
       (float_mul (float_of_int equity_boost) (float_literal (10 / 100)))"

definition calculate_composite_score ::
  "(string \<Rightarrow> py_error option) \<Rightarrow> dimension_scorers \<Rightarrow> (string \<rightharpoonup> org_row) \<Rightarrow> bool \<Rightarrow>
   (string \<rightharpoonup> bool \<times> string option) \<Rightarrow> int \<Rightarrow>
   int \<Rightarrow> string \<Rightarrow> string option \<Rightarrow> string \<Rightarrow> string \<Rightarrow> int option \<Rightarrow>
   py_error + ((string \<times> json) list \<times> (string \<rightharpoonup> bool \<times> string option))" where
  "calculate_composite_score check_host dims org_blocklist query_raises cache now
       page_id url title content domain freshness_age =
     (let result = [(''page_id'', JInt page_id), (''url'', JStr url), (''scored_at'', JInt now)]
      in case check_org_blocklist check_host org_blocklist query_raises cache domain of
           Inl e \<Rightarrow> Inl e
         | Inr ((blocked, block_reason), cache') \<Rightarrow>
             if blocked then
               (let r = (case block_reason of None \<Rightarrow> JNull | Some s \<Rightarrow> JStr s)
                in Inr (result @
                        [(''final_composite_score'', JInt 0),
                         (''indexable'', JBool False),
                         (''blocklist_reason'', r),
                         (''components'', JObj [(''org_blocked'', JBool True), (''reason'', r)])],
                        cache'))
             else
               (let (islamic_score, islamic_details) =
                      calculate_islamic_alignment dims content domain;
                    islamic_normalized = islamic_normalized_of islamic_score;
                    (quality_score0, quality_details0) = quality_score_of dims content domain title;
                    (quality_score, quality_details) =
                      (case freshness_age of
                         None \<Rightarrow> (quality_score0, quality_details0)
                       | Some age \<Rightarrow>
                           (min 100 (quality_score0 + freshness_of age),
                            quality_details0 @ [(''freshness'', JInt (freshness_of age))]));
                    (authority_score, authority_details) =
                      calculate_authority_score dims url domain;
                    (media_score, media_details) =
                      media_literacy_score_of dims content domain title;
                    (equity_boost, equity_details) = calculate_equity_boost dims domain;
                    components =
                      [(''islamic_alignment'',
                          JObj [(''raw_score'', json_of_number islamic_score),
                                (''normalized_score'', JFloat islamic_normalized),
                                (''details'', islamic_details)]),
                       (''quality'',
                          JObj [(''score'', JInt quality_score),
                                (''details'', JObj quality_details)]),
                       (''authority'',
                          JObj [(''score'', JInt authority_score),
                                (''details'', authority_details)]),
                       (''media_literacy'',
                          JObj [(''score'', JInt media_score), (''details'', media_details)]),
                       (''equity_boost'',
                          JObj [(''boost'', JInt equity_boost), (''details'', equity_details)])];
                    composite = weighted_composite islamic_normalized quality_score
                                  authority_score media_score equity_boost;
                    final_score = py_round composite;
                    indexable = (25 \<le> final_score)
                in Inr (result @
                        [(''islamic_alignment_score'', JInt (int_of_number islamic_score)),
                         (''quality_score'', JInt quality_score),
                         (''authority_score'', JInt authority_score),
                         (''media_literacy_score'', JInt media_score),
                         (''equity_boost'', JInt equity_boost),
                         (''final_composite_score'', JInt final_score),
                         (''indexable'', JBool indexable),
                         (''blocklist_reason'', JNull),
                         (''components'', JObj components)],
                        cache')))"

subsection \<open>Persisting the scores\<close>

text \<open>
  \<open>result[key]\<close> raises \<open>KeyError\<close> for a missing key; \<open>result.get(key)\<close> gives
  None instead.
\<close>

definition dict_item :: "(string \<times> json) list \<Rightarrow> string \<Rightarrow> py_error + json" where
  "dict_item d key = (case map_of d key of None \<Rightarrow> Inl (KeyError (quoted key)) | Some v \<Rightarrow> Inr v)"

fun dict_items :: "(string \<times> json) list \<Rightarrow> string list \<Rightarrow> py_error + json list" where
  "dict_items d [] = Inr []"
| "dict_items d (k # ks) =
     (case dict_item d k of
        Inl e \<Rightarrow> Inl e
      | Inr v \<Rightarrow> (case dict_items d ks of Inl e \<Rightarrow> Inl e | Inr vs \<Rightarrow> Inr (v # vs)))"

text \<open>
  The two tables \<open>save_scores_to_db\<close> writes: the score columns of \<open>pages\<close>, by
  page id, and the rows of \<open>page_scoring_logs\<close>.
\<close>

record scores_db =
  pages_scores :: "json \<rightharpoonup> json list"
  page_scoring_logs :: "json list list"

definition component_details :: "json \<Rightarrow> string \<Rightarrow> py_error + json" where
  "component_details components name =
     (case json_get components name (JObj []) of
        Inl e \<Rightarrow> Inl e
      | Inr c \<Rightarrow> json_get c ''details'' (JObj []))"

text \<open>\<open>and_then m f\<close> goes on with \<open>f\<close> unless \<open>m\<close> raised.\<close>

definition and_then :: "py_error + 'a \<Rightarrow> ('a \<Rightarrow> py_error + 'b) \<Rightarrow> py_error + 'b" where
  "and_then m f = (case m of Inl e \<Rightarrow> Inl e | Inr x \<Rightarrow> f x)"

text \<open>
  The body of the \<open>try\<close> block of \<open>save_scores_to_db\<close>: the parameters of the
  \<open>UPDATE\<close> are read from the result in the order of the tuple, then the statement
  runs; then the same for the \<open>INSERT\<close>; then the commit. \<open>Inl\<close> is an exception
  raised on the way.
\<close>

definition update_pages :: "json list \<Rightarrow> scores_db \<Rightarrow> scores_db" where
  "update_pages params db =
     (case pages_scores db (last params) of
        None \<Rightarrow> db
      | Some old \<Rightarrow> db\<lparr>pages_scores := (pages_scores db)(last params \<mapsto> butlast params)\<rparr>)"

definition save_scores_try :: "(string \<times> json) list \<Rightarrow> scores_db \<Rightarrow> py_error + scores_db" where
  "save_scores_try result db =
     and_then (dict_items result
                 [''islamic_alignment_score'', ''quality_score'', ''authority_score'',
                  ''media_literacy_score'', ''equity_boost'', ''final_composite_score'',
                  ''indexable'', ''scored_at'', ''page_id''])
       (\<lambda>update_params.
     and_then (dict_item result ''components'')
       (\<lambda>components.
     and_then (dict_items result [''page_id'', ''url'', ''islamic_alignment_score''])
       (\<lambda>first3.
     and_then (component_details components ''islamic_alignment'')
       (\<lambda>islamic_details.
     and_then (dict_item result ''quality_score'')
       (\<lambda>quality.
     and_then (component_details components ''quality'')
       (\<lambda>quality_details.
     and_then (dict_items result
                 [''authority_score'', ''equity_boost'', ''media_literacy_score'',
                  ''final_composite_score'', ''indexable''])
       (\<lambda>mid.
     and_then (dict_item result ''scored_at'')
       (\<lambda>scored_at.
          (let reason = (case map_of result ''blocklist_reason'' of None \<Rightarrow> JNull | Some v \<Rightarrow> v);
               row = first3 @ [islamic_details, quality, quality_details] @ mid
                     @ [reason, scored_at];
               db1 = update_pages update_params db
           in Inr (db1\<lparr>page_scoring_logs := page_scoring_logs db1 @ [row]\<rparr>))))))))))"

text \<open>
  \<open>save_scores_to_db\<close>: on an exception the transaction is rolled back, which
  leaves the database as it was, and the exception is raised again.
\<close>

definition save_scores_to_db :: "(string \<times> json) list \<Rightarrow> scores_db \<Rightarrow> (py_error + unit) \<times> scores_db" where
  "save_scores_to_db result db =
     (case save_scores_try result db of
        Inl e \<Rightarrow> (Inl e, db)
      | Inr db' \<Rightarrow> (Inr (), db'))"

text \<open>The state \<open>score_page\<close> works on: the tables it writes and the cache of the override.\<close>

record scorer_state =
  database :: scores_db
  blocklist_cache :: "string \<rightharpoonup> bool \<times> string option"

definition score_page ::
  "(string \<Rightarrow> py_error option) \<Rightarrow> dimension_scorers \<Rightarrow> (string \<rightharpoonup> org_row) \<Rightarrow> bool \<Rightarrow> int \<Rightarrow>
   scorer_state \<Rightarrow> int \<Rightarrow> string \<Rightarrow> string option \<Rightarrow> string \<Rightarrow> string \<Rightarrow> int option \<Rightarrow>
   (py_error + json) \<times> scorer_state" where
  "score_page check_host dims org_blocklist query_raises now st
       page_id url title content domain freshness_age =
     (case calculate_composite_score check_host dims org_blocklist query_raises
             (blocklist_cache st) now page_id url title content domain freshness_age of
        Inl e \<Rightarrow> (Inl e, st)
      | Inr (result, cache') \<Rightarrow>
          (case save_scores_to_db result (database st) of
             (Inl e, db') \<Rightarrow> (Inl e, st\<lparr>database := db', blocklist_cache := cache'\<rparr>)
           | (Inr u, db') \<Rightarrow>
               (dict_item result ''final_composite_score'',
                st\<lparr>database := db', blocklist_cache := cache'\<rparr>)))"

section \<open>Evaluating the string functions\<close>

text \<open>
  \<open>lower_char\<close> on the eight bits of a character: the capital letters are the
  code points 65 to 90 and 192 to 222 without 215, and adding 32 sets the sixth bit.
\<close>

lemma lower_char_code [code]:
  "lower_char (Char b0 b1 b2 b3 b4 b5 b6 b7) =
     (if b6 \<and> \<not> b5 \<and>
         (if b7 then \<not> (b0 \<and> b1 \<and> b2 \<and> b4)
          else (b0 \<or> b1 \<or> b2 \<or> b3 \<or> b4) \<and> \<not> (b4 \<and> b3 \<and> (b2 \<or> (b1 \<and> b0))))
      then Char b0 b1 b2 b3 b4 True b6 b7
      else Char b0 b1 b2 b3 b4 b5 b6 b7)"
  by (cases b0; cases b1; cases b2; cases b3; cases b4; cases b5; cases b6; cases b7;
      simp add: lower_char_def char_of_eq_iff)

section \<open>Properties of the Tier 1 blocklist\<close>

















lemma is_blocked_try_raises:
  "is_blocked_try check_host bl url = Inl e \<longleftrightarrow> urlparse_netloc check_host (lower url) = Inl e"
  by (auto simp: is_blocked_try_def Let_def split: sum.splits option.splits)

text \<open>
  C7. \<open>is_blocked\<close> fails closed. Whenever a step of the check raises, and the
  only step that can is the parsing of the URL, the exception is caught and the
  answer is blocked, with the reason \<open>Invalid URL format\<close> followed by the text
  of the exception. So a URL that does not parse is always reported blocked, and
  no exception reaches the caller: the answer is a pair in every case.
\<close>

theorem is_blocked_fail_closed:
  "(is_blocked_try check_host bl url = Inl e \<longrightarrow>
      is_blocked check_host bl url = (True, Some (''Invalid URL format: '' @ str_of_error e)))
   \<and> (urlparse_netloc check_host (lower url) = Inl e \<longrightarrow>
      is_blocked check_host bl url = (True, Some (''Invalid URL format: '' @ str_of_error e)))
   \<and> (\<exists>blocked reason. is_blocked check_host bl url = (blocked, reason))"
proof (intro conjI impI)
  assume "is_blocked_try check_host bl url = Inl e"
  then show "is_blocked check_host bl url
      = (True, Some (''Invalid URL format: '' @ str_of_error e))"
    by (simp add: is_blocked_def)
next
  assume "urlparse_netloc check_host (lower url) = Inl e"
  then have "is_blocked_try check_host bl url = Inl e"
    by (simp add: is_blocked_try_raises)
  then show "is_blocked check_host bl url
      = (True, Some (''Invalid URL format: '' @ str_of_error e))"
    by (simp add: is_blocked_def)
next
  show "\<exists>blocked reason. is_blocked check_host bl url = (blocked, reason)"
    by (cases "is_blocked check_host bl url") blast
qed

theorem is_blocked_fail_closed_witness:
  "urlparse_netloc (\<lambda>h. None) (lower ''http://[::1/index.html'')
     = Inl (ValueError ''Invalid IPv6 URL'')
   \<and> is_blocked (\<lambda>h. None) Tier1Blocklist ''http://[::1/index.html''
     = (True, Some ''Invalid URL format: Invalid IPv6 URL'')"
proof -
  have p: "urlparse_netloc (\<lambda>h. None) (lower ''http://[::1/index.html'')
     = Inl (ValueError ''Invalid IPv6 URL'')"
    by code_simp
  from is_blocked_fail_closed [of "\<lambda>h. None" Tier1Blocklist "''http://[::1/index.html''"
      "ValueError ''Invalid IPv6 URL''"] p
  show ?thesis by simp
qed

section \<open>Properties of URL normalisation\<close>

lemma dropWhile_keep: "\<not> P c \<Longrightarrow> dropWhile P (xs @ c # ys) = dropWhile P xs @ c # ys"
  by (induction xs) auto

lemma rstrip_keep: "\<not> py_isspace c \<Longrightarrow> rstrip (xs @ c # ys) = xs @ c # rstrip ys"
  by (simp add: rstrip_def dropWhile_keep)

lemma hash_not_space: "\<not> py_isspace (CHR ''#'')"
  by (simp add: py_isspace_def)

lemma length_rstrip: "length (rstrip s) \<le> length s"
  unfolding rstrip_def by (metis length_dropWhile_le length_rev)

lemma strip_fixed:
  assumes "strip b = b"
  shows "lstrip b = b" and "rstrip b = b"
proof -
  have "length b = length (rstrip (lstrip b))" using assms by (simp add: strip_def)
  also have "\<dots> \<le> length (lstrip b)" by (rule length_rstrip)
  finally have "length b \<le> length b - length (takeWhile py_isspace b)"
    by (simp add: lstrip_def dropWhile_eq_drop)
  then have "length (takeWhile py_isspace b) = 0 \<or> length b = 0" by arith
  then have "takeWhile py_isspace b = []" by auto
  then show l: "lstrip b = b"
    by (simp add: lstrip_def dropWhile_eq_drop)
  from assms l show "rstrip b = b" by (simp add: strip_def)
qed

lemma lstrip_append:
  assumes "lstrip b = b" and "\<not> py_isspace c"
  shows "lstrip (b @ c # r) = b @ c # r"
proof -
  from assms(1) have "b = [] \<or> \<not> py_isspace (hd b)"
    unfolding lstrip_def by (simp only: dropWhile_eq_self_iff)
  then show ?thesis
    using assms(2) by (cases b) (auto simp: lstrip_def)
qed

lemma strip_fragment:
  assumes "strip b = b"
  shows "strip (b @ CHR ''#'' # r) = b @ CHR ''#'' # rstrip r"
proof -
  have "lstrip (b @ CHR ''#'' # r) = b @ CHR ''#'' # r"
    using strip_fixed(1) [OF assms] hash_not_space by (rule lstrip_append)
  moreover have "rstrip (b @ CHR ''#'' # r) = b @ CHR ''#'' # rstrip r"
    using hash_not_space by (rule rstrip_keep)
  ultimately show ?thesis by (simp add: strip_def)
qed

lemma takeWhile_fragment:
  "CHR ''#'' \<notin> set b \<Longrightarrow> takeWhile (\<lambda>c. c \<noteq> CHR ''#'') (b @ CHR ''#'' # r) = b"
  by (induction b) auto

lemma normalize_url_base:
  assumes "CHR ''#'' \<notin> set b" and "strip b = b" and "f = [] \<or> hd f = CHR ''#''"
  shows "normalize_url (b @ f)
           = (if startswith b ''http://'' \<or> startswith b ''https://'' then b else ''https://'' @ b)"
proof (cases f)
  case Nil
  with assms(1,2) show ?thesis by (simp add: normalize_url_def)
next
  case (Cons c r)
  with assms(3) have f: "f = CHR ''#'' # r" by simp
  have s: "strip (b @ f) = b @ CHR ''#'' # rstrip r"
    unfolding f using assms(2) by (rule strip_fragment)
  have t: "takeWhile (\<lambda>c. c \<noteq> CHR ''#'') (b @ CHR ''#'' # rstrip r) = b"
    using assms(1) by (rule takeWhile_fragment)
  show ?thesis
    unfolding normalize_url_def s by (simp add: t)
qed

lemma strip_https:
  assumes "strip b = b"
  shows "strip (''https://'' @ b) = ''https://'' @ b"
proof -
  have r: "rstrip b = b" using assms by (rule strip_fixed)
  have "rstrip (''https:/'' @ CHR ''/'' # b) = ''https:/'' @ CHR ''/'' # rstrip b"
    by (rule rstrip_keep) (simp add: py_isspace_def)
  with r have "rstrip (''https://'' @ b) = ''https://'' @ b" by simp
  moreover have "lstrip (''https://'' @ b) = ''https://'' @ b"
    by (simp add: lstrip_def py_isspace_def)
  ultimately show ?thesis by (simp add: strip_def)
qed

lemma normalize_url_with_scheme:
  assumes "CHR ''#'' \<notin> set b" and "strip b = b" and "f = [] \<or> hd f = CHR ''#''"
  shows "normalize_url (''https://'' @ b @ f) = ''https://'' @ b"
proof -
  have "CHR ''#'' \<notin> set (''https://'' @ b)" using assms(1) by simp
  from normalize_url_base [OF this strip_https [OF assms(2)] assms(3)]
  show ?thesis by simp
qed


lemma normalize_url_prefix:
  "normalize_url u =
     (let v = takeWhile (\<lambda>c. c \<noteq> CHR ''#'') (strip u)
      in if startswith v ''http://'' \<or> startswith v ''https://'' then v else ''https://'' @ v)"
proof (cases "CHR ''#'' \<in> set (strip u)")
  case True
  then show ?thesis by (simp add: normalize_url_def Let_def)
next
  case False
  then have "\<forall>x\<in>set (strip u). x \<noteq> CHR ''#''" by blast
  then have tw: "takeWhile (\<lambda>c. c \<noteq> CHR ''#'') (strip u) = strip u"
    by (simp only: takeWhile_eq_all_conv)
  show ?thesis unfolding tw using False by (simp add: normalize_url_def Let_def)
qed

lemma normalize_url_example:
  "normalize_url ''example.com/page#frag'' = ''https://example.com/page''
   \<and> normalize_url ''https://example.com/page#other'' = ''https://example.com/page''"
  by code_simp

text \<open>
  C8, as the code has it. Let \<open>b\<close> be a string without a hash sign and without
  leading or trailing whitespace, and \<open>f1\<close>, \<open>f2\<close> two fragments (each empty or
  starting with a hash sign). Then \<open>b\<close> with either fragment normalises to the
  same string and so to the same hash. If \<open>b\<close> starts with neither \<open>http://\<close>
  nor \<open>https://\<close>, that string is \<open>https://\<close> followed by \<open>b\<close>, and putting
  \<open>https://\<close> in front of \<open>b\<close> changes neither the normal form nor the hash.
  The two URLs of the specification normalise and hash identically. An input gains
  the \<open>https://\<close> prefix when its trimmed text before the first hash sign starts
  with neither scheme.
\<close>

theorem normalize_url_fragment_scheme:
  assumes "CHR ''#'' \<notin> set b" and "strip b = b"
    and "f1 = [] \<or> hd f1 = CHR ''#''" and "f2 = [] \<or> hd f2 = CHR ''#''"
  shows
    "normalize_url (b @ f1) = normalize_url (b @ f2)
     \<and> get_url_hash sha256_hex (normalize_url (b @ f1))
         = get_url_hash sha256_hex (normalize_url (b @ f2))
     \<and> (\<not> startswith b ''http://'' \<and> \<not> startswith b ''https://'' \<longrightarrow>
          normalize_url (b @ f1) = ''https://'' @ b
          \<and> normalize_url (''https://'' @ b @ f2) = normalize_url (b @ f1)
          \<and> get_url_hash sha256_hex (normalize_url (''https://'' @ b @ f2))
              = get_url_hash sha256_hex (normalize_url (b @ f1)))
     \<and> normalize_url ''example.com/page#frag'' = normalize_url ''https://example.com/page#other''
     \<and> get_url_hash sha256_hex (normalize_url ''example.com/page#frag'')
         = get_url_hash sha256_hex (normalize_url ''https://example.com/page#other'')
     \<and> (let v = takeWhile (\<lambda>c. c \<noteq> CHR ''#'') (strip u)
        in \<not> startswith v ''http://'' \<and> \<not> startswith v ''https://'' \<longrightarrow>
           normalize_url u = ''https://'' @ v)"
proof -
  have a: "normalize_url (b @ f1) = normalize_url (b @ f2)"
    using assms by (simp add: normalize_url_base)
  have b: "\<not> startswith b ''http://'' \<and> \<not> startswith b ''https://'' \<longrightarrow>
             normalize_url (b @ f1) = ''https://'' @ b"
    using assms by (simp add: normalize_url_base)
  have c: "normalize_url (''https://'' @ b @ f2) = ''https://'' @ b"
    using assms(1,2,4) by (rule normalize_url_with_scheme)
  have d: "normalize_url ''example.com/page#frag'' = normalize_url ''https://example.com/page#other''"
    using normalize_url_example by simp
  have e: "let v = takeWhile (\<lambda>c. c \<noteq> CHR ''#'') (strip u)
        in \<not> startswith v ''http://'' \<and> \<not> startswith v ''https://'' \<longrightarrow>
           normalize_url u = ''https://'' @ v"
    unfolding Let_def by (subst normalize_url_prefix) (simp add: Let_def)
  from a b c d e show ?thesis by simp
qed

theorem normalize_url_fragment_scheme_witness:
  "normalize_url (''nothere.one/about'' @ ''#team'') = normalize_url (''nothere.one/about'' @ [])
   \<and> normalize_url (''nothere.one/about'' @ ''#team'') = ''https://nothere.one/about''
   \<and> normalize_url (''https://'' @ ''nothere.one/about'' @ [])
       = normalize_url (''nothere.one/about'' @ ''#team'')"
proof -
  have h1: "CHR ''#'' \<notin> set ''nothere.one/about''" by simp
  have h2: "strip ''nothere.one/about'' = ''nothere.one/about''" by code_simp
  have h3: "''#team'' = [] \<or> hd ''#team'' = CHR ''#''" by simp
  have h4: "([] :: string) = [] \<or> hd [] = CHR ''#''" by simp
  have h5: "\<not> startswith ''nothere.one/about'' ''http://''
            \<and> \<not> startswith ''nothere.one/about'' ''https://''"
    by simp
  note t = normalize_url_fragment_scheme [OF h1 h2 h3 h4, of "\<lambda>x. x" "[]"]
  have a: "normalize_url (''nothere.one/about'' @ ''#team'') = normalize_url (''nothere.one/about'' @ [])"
    by (rule t [THEN conjunct1])
  have b: "normalize_url (''nothere.one/about'' @ ''#team'') = ''https://'' @ ''nothere.one/about''
      \<and> normalize_url (''https://'' @ ''nothere.one/about'' @ [])
          = normalize_url (''nothere.one/about'' @ ''#team'')
      \<and> get_url_hash (\<lambda>x. x) (normalize_url (''https://'' @ ''nothere.one/about'' @ []))
          = get_url_hash (\<lambda>x. x) (normalize_url (''nothere.one/about'' @ ''#team''))"
    by (rule t [THEN conjunct2, THEN conjunct2, THEN conjunct1, THEN mp, OF h5])
  have c: "''https://'' @ ''nothere.one/about'' = ''https://nothere.one/about''" by simp
  show ?thesis
    using a b [THEN conjunct1] b [THEN conjunct2, THEN conjunct1] unfolding c
    by (intro conjI)
qed

theorem normalize_url_fragment_counterexample:
  "normalize_url (''example.com/page '' @ ''#frag'') \<noteq> normalize_url ''example.com/page ''
   \<and> \<not> startswith '' http://example.com'' ''http://''
   \<and> \<not> startswith '' http://example.com'' ''https://''
   \<and> \<not> startswith (normalize_url '' http://example.com'') ''https://''"
  by code_simp

section \<open>Properties of the frontier store\<close>

lemma dedup_dequeue_url: "dedup (snd (dequeue_url f s)) = dedup s"
  by (simp add: dequeue_url_def rpop_def)

lemma dedup_enqueue_url: "dedup s \<subseteq> dedup (snd (enqueue_url f g url s))"
  by (auto simp: enqueue_url_def sadd_def lpush_def)

lemma dedup_store_step: "dedup s \<subseteq> dedup (store_step x s)"
  by (cases x) (simp_all add: dedup_dequeue_url dedup_enqueue_url)

lemma dedup_store_run: "dedup s \<subseteq> dedup (store_run xs s)"
proof (induction xs arbitrary: s)
  case Nil
  show ?case by simp
next
  case (Cons x xs)
  have "dedup s \<subseteq> dedup (store_step x s)" by (rule dedup_store_step)
  also have "\<dots> \<subseteq> dedup (store_run xs (store_step x s))" by (rule Cons.IH)
  finally show ?case by simp
qed

lemma enqueue_url_admitted_in_dedup:
  "fst (enqueue_url f g url s) \<Longrightarrow> url \<in> dedup (snd (enqueue_url f g url s))"
  by (auto simp: enqueue_url_def sadd_def lpush_def split: if_splits)

lemma enqueue_url_known: "url \<in> dedup s \<Longrightarrow> enqueue_url f g url s = (False, s)"
  by (simp add: enqueue_url_def sadd_def)

text \<open>
  C9. The dedup set only grows: a dequeue leaves it as it is, and no run of
  enqueue and dequeue calls removes a member. So once an enqueue of a URL has returned
  True, every later enqueue of that URL returns False and leaves the store unchanged,
  whatever was enqueued or dequeued in between (the URL itself included).
\<close>

theorem dedup_never_shrinks:
  "dedup (snd (dequeue_url r s)) = dedup s
   \<and> dedup s \<subseteq> dedup (store_run ops s)
   \<and> (fst (enqueue_url f g url s) \<longrightarrow>
        enqueue_url f' g' url (store_run ops (snd (enqueue_url f g url s)))
          = (False, store_run ops (snd (enqueue_url f g url s))))"
proof (intro conjI impI)
  show "dedup (snd (dequeue_url r s)) = dedup s" by (rule dedup_dequeue_url)
  show "dedup s \<subseteq> dedup (store_run ops s)" by (rule dedup_store_run)
next
  assume "fst (enqueue_url f g url s)"
  then have "url \<in> dedup (snd (enqueue_url f g url s))"
    by (rule enqueue_url_admitted_in_dedup)
  then have "url \<in> dedup (store_run ops (snd (enqueue_url f g url s)))"
    using dedup_store_run by blast
  then show "enqueue_url f' g' url (store_run ops (snd (enqueue_url f g url s)))
          = (False, store_run ops (snd (enqueue_url f g url s)))"
    by (rule enqueue_url_known)
qed

theorem dedup_never_shrinks_witness:
  "fst (enqueue_url False False ''https://a.org'' \<lparr>queue = [], dedup = {}\<rparr>)
   \<and> enqueue_url False False ''https://a.org''
        (store_run [Dequeue False]
           (snd (enqueue_url False False ''https://a.org'' \<lparr>queue = [], dedup = {}\<rparr>)))
      = (False, \<lparr>queue = [], dedup = {''https://a.org''}\<rparr>)"
proof -
  have h: "fst (enqueue_url False False ''https://a.org'' \<lparr>queue = [], dedup = {}\<rparr>)"
    by (simp add: enqueue_url_def sadd_def lpush_def)
  have r: "store_run [Dequeue False]
             (snd (enqueue_url False False ''https://a.org'' \<lparr>queue = [], dedup = {}\<rparr>))
      = \<lparr>queue = [], dedup = {''https://a.org''}\<rparr>"
    by (simp add: enqueue_url_def sadd_def lpush_def dequeue_url_def rpop_def)
  from dedup_never_shrinks [of False "\<lparr>queue = [], dedup = {}\<rparr>" "[Dequeue False]"
      False False "''https://a.org''" False False] h r
  show ?thesis by simp
qed

section \<open>Admission to the frontier\<close>

lemma example_org_allowed:
  "is_blocked check_host Tier1Blocklist ''https://example.org/a'' = (False, None)"
  by code_simp

text \<open>
  C5. \<open>queue_url\<close> called twice on the same URL, from an empty store and an empty
  database. The URL is not blocked and not crawled. The first call admits it. At
  the second call the URL is in the dedup set, \<open>enqueue_url\<close> refuses it and the
  store stays as it was, with the URL once in the queue; \<open>queue_url\<close> drops that
  answer, returns True and counts a second queued URL.
\<close>

theorem queue_url_duplicate_admitted:
  "(let st0 = \<lparr>redis = \<lparr>queue = [], dedup = {}\<rparr>, page_hashes = {}, urls_queued = 0\<rparr>;
        (r1, st1) = queue_url check_host sha256_hex Tier1Blocklist False False
                      ''https://example.org/a'' st0;
        (r2, st2) = queue_url check_host sha256_hex Tier1Blocklist False False
                      ''https://example.org/a'' st1
    in r1 \<and> ''https://example.org/a'' \<in> dedup (redis st1)
       \<and> enqueue_url False False ''https://example.org/a'' (redis st1) = (False, redis st1)
       \<and> r2 \<and> redis st2 = redis st1
       \<and> queue (redis st2) = [''https://example.org/a'']
       \<and> urls_queued st2 = 2)"
  by (simp add: queue_url_def example_org_allowed is_url_crawled_def enqueue_url_def
        sadd_def lpush_def)

section \<open>Properties of the media literacy scorer\<close>

lemma validate_score_int:
  assumes "validate_score v = Inr s"
  shows "\<exists>n. json_int s = Inr n \<and> 0 \<le> n \<and> n \<le> 100"
  using assms
  by (cases v)
     (auto simp: validate_score_def score_in_range_def json_min_def json_max_def json_int_def
        num_le_def floor_le_iff split: if_splits)

lemma validate_score_JInt: "validate_score (JInt n) = Inr (JInt (max 0 (min 100 n)))"
  by (auto simp: validate_score_def score_in_range_def json_min_def json_max_def num_le_def)

lemma read_analysis_bounds:
  assumes "read_analysis json_loads response t = Inr (n, d)"
  shows "0 \<le> n \<and> n \<le> 100"
proof -
  from assms obtain raw s where v: "validate_score raw = Inr s" and i: "json_int s = Inr n"
    by (auto simp: read_analysis_def split: sum.splits)
  from validate_score_int [OF v] i show ?thesis by auto
qed

lemma analyze_score_bounds:
  "0 \<le> fst (fst (analyze_with_openrouter http json_loads scorer content domain title))
   \<and> fst (fst (analyze_with_openrouter http json_loads scorer content domain title)) \<le> 100"
  by (auto simp: analyze_with_openrouter_def Let_def
        split: option.splits sum.splits py_error.splits prod.splits
        dest: read_analysis_bounds)

lemma media_score_bounds:
  "0 \<le> fst (fst (calculate_media_literacy_score http json_loads scorer content domain title))
   \<and> fst (fst (calculate_media_literacy_score http json_loads scorer content domain title)) \<le> 100"
proof -
  obtain needs_ai matched where n: "needs_analysis content domain = (needs_ai, matched)"
    by (cases "needs_analysis content domain")
  show ?thesis
  proof (cases needs_ai)
    case False
    with n show ?thesis
      by (simp add: calculate_media_literacy_score_def Let_def)
  next
    case True
    let ?sc = "scorer\<lparr>stats := (stats scorer)\<lparr>total_calls := total_calls (stats scorer) + 1\<rparr>\<rparr>"
    obtain s d sc' where a: "analyze_with_openrouter http json_loads ?sc content domain title
        = ((s, d), sc')"
      by (metis prod.exhaust)
    from analyze_score_bounds [of http json_loads ?sc content domain title] a
    have "0 \<le> s \<and> s \<le> 100" by simp
    with True n a show ?thesis
      by (simp add: calculate_media_literacy_score_def Let_def)
  qed
qed

lemma call_openrouter_stats:
  "call_openrouter http (scorer\<lparr>stats := st\<rparr>) p model = call_openrouter http scorer p model"
  by (simp add: call_openrouter_def)

lemma analyze_both_fail:
  assumes "call_openrouter http scorer (build_analysis_prompt content domain title) primary_model = None"
    and "call_openrouter http scorer (build_analysis_prompt content domain title) fallback_model = None"
  shows "fst (analyze_with_openrouter http json_loads scorer content domain title)
           = (50, [(''status'', JStr ''error''), (''error'', JStr ''API unavailable''),
                   (''fallback_reason'', JStr ''Both models failed'')])"
  using assms by (simp add: analyze_with_openrouter_def Let_def)

lemma analyze_malformed:
  assumes "model_response http scorer (build_analysis_prompt content domain title) = Some resp"
    and "response_text resp = Inr t"
    and "json_loads t = Inl JSONDecodeError"
  shows "fst (analyze_with_openrouter http json_loads scorer content domain title)
           = (50, [(''status'', JStr ''error''), (''error'', JStr ''Invalid JSON response''),
                   (''raw_response'', JStr (take 200 t))])"
  using assms
  by (auto simp: analyze_with_openrouter_def model_response_def read_analysis_def Let_def
        split: option.splits)

lemma analyze_error_neutral:
  assumes "model_response http scorer (build_analysis_prompt content domain title) = Some resp"
    and "response_text resp = Inl e \<or>
         (\<exists>t. response_text resp = Inr t \<and> read_analysis json_loads resp t = Inl e)"
  shows "fst (fst (analyze_with_openrouter http json_loads scorer content domain title)) = 50
         \<and> map_of (snd (fst (analyze_with_openrouter http json_loads scorer content domain title)))
              ''status'' = Some (JStr ''error'')"
  using assms
  by (auto simp: analyze_with_openrouter_def model_response_def Let_def
        split: option.splits py_error.splits)

lemma analyze_success:
  assumes "model_response http scorer (build_analysis_prompt content domain title) = Some resp"
    and "response_text resp = Inr t"
    and "json_loads t = Inr analysis"
    and "json_get analysis ''credibility_score'' (JInt 50) = Inr (JInt n)"
  shows "fst (fst (analyze_with_openrouter http json_loads scorer content domain title))
           = max 0 (min 100 n)"
proof -
  from assms(4) obtain members where m: "analysis = JObj members"
    by (cases analysis) (auto simp: json_get_def)
  have r: "json_get resp ''model'' (JStr primary_model) \<noteq> Inl AttributeError"
    using assms(2) by (cases resp) (auto simp: response_text_def json_get_def split: option.splits)
  then obtain mu where mu: "json_get resp ''model'' (JStr primary_model) = Inr mu"
    by (cases resp) (auto simp: json_get_def split: option.splits)
  have d: "\<exists>details. analysis_details resp analysis (JInt (max 0 (min 100 n))) = Inr details"
    using mu unfolding m by (auto simp: analysis_details_def json_get_def split: option.splits)
  have i: "json_int (JInt (max 0 (min 100 n))) = Inr (max 0 (min 100 n))"
    by (simp add: json_int_def)
  from d obtain details where
    "read_analysis json_loads resp t = Inr (max 0 (min 100 n), details)"
    using assms(3,4) i by (auto simp: read_analysis_def validate_score_JInt)
  with assms(1,2) show ?thesis
    by (auto simp: analyze_with_openrouter_def model_response_def Let_def split: option.splits)
qed


lemma flat_earth_matches:
  "needs_analysis
     ''Ancient maps often drew a flat earth, long before sailors and astronomers measured the curve of the horizon.''
     domain
   = (True, [''flat earth'', ''flat earth''])"
  by code_simp

lemma one_keyword_no_analysis:
  "needs_analysis
     ''Some writers call the moon photos a hoax, yet the rocks brought back are kept in many museums around the globe.''
     domain
   = (False, [''hoax''])"
  by code_simp

text \<open>
  C2, at a text of 108 characters in which one red-flag phrase occurs, \<open>flat earth\<close>,
  and no other. The phrase stands twice in \<open>red_flag_keywords\<close> (with the
  conspiracy theories and again with the historical revisionism), so it is matched
  twice, the count of matches is 2 and the gate answers True. A text with the one
  phrase \<open>hoax\<close>, which stands once in the list, is not escalated.
\<close>

theorem needs_analysis_counts_duplicates:
  "needs_analysis
     ''Ancient maps often drew a flat earth, long before sailors and astronomers measured the curve of the horizon.''
     domain
   = (True, [''flat earth'', ''flat earth''])
   \<and> set (snd (needs_analysis
     ''Ancient maps often drew a flat earth, long before sailors and astronomers measured the curve of the horizon.''
     domain)) = {''flat earth''}
   \<and> length ''Ancient maps often drew a flat earth, long before sailors and astronomers measured the curve of the horizon.'' = 108
   \<and> needs_analysis
     ''Some writers call the moon photos a hoax, yet the rocks brought back are kept in many museums around the globe.''
     domain
   = (False, [''hoax''])"
  by (simp add: flat_earth_matches one_keyword_no_analysis)

lemma media_both_fail:
  assumes "fst (needs_analysis content domain)"
    and "call_openrouter http scorer (build_analysis_prompt content domain title) primary_model = None"
    and "call_openrouter http scorer (build_analysis_prompt content domain title) fallback_model = None"
  shows "fst (fst (calculate_media_literacy_score http json_loads scorer content domain title)) = 50
         \<and> map_of (snd (fst (calculate_media_literacy_score http json_loads scorer content domain title)))
              ''status'' = Some (JStr ''error'')"
proof -
  obtain matched where n: "needs_analysis content domain = (True, matched)"
    using assms(1) by (cases "needs_analysis content domain") simp
  let ?sc = "scorer\<lparr>stats := (stats scorer)\<lparr>total_calls := total_calls (stats scorer) + 1\<rparr>\<rparr>"
  have "fst (analyze_with_openrouter http json_loads ?sc content domain title)
           = (50, [(''status'', JStr ''error''), (''error'', JStr ''API unavailable''),
                   (''fallback_reason'', JStr ''Both models failed'')])"
    using assms(2,3) by (intro analyze_both_fail) (simp_all add: call_openrouter_stats)
  then obtain sc' where "analyze_with_openrouter http json_loads ?sc content domain title
           = ((50, [(''status'', JStr ''error''), (''error'', JStr ''API unavailable''),
                   (''fallback_reason'', JStr ''Both models failed'')]), sc')"
    by (metis prod.collapse)
  with n show ?thesis
    by (simp add: calculate_media_literacy_score_def Let_def)
qed

text \<open>
  C4. \<open>calculate_media_literacy_score\<close> returns a score between 0 and 100 for
  every content, domain and title, whatever the HTTP exchange and \<open>json.loads\<close>
  do; every exception of the \<open>try\<close> block is a branch that ends in the score 50.
  When the primary and the fallback call both fail, the result is 50 with the
  details of an error. When the text of the answer is not JSON, the result is 50
  with the error \<open>Invalid JSON response\<close> and the start of the text; any other
  exception while the answer is read gives 50 with the status \<open>error\<close> too. When
  the answer parses and its \<open>credibility_score\<close> is the integer \<open>n\<close>, the score
  returned is \<open>n\<close> clamped into 0 to 100.
\<close>

theorem media_literacy_never_raises:
  "(0 \<le> fst (fst (calculate_media_literacy_score http json_loads scorer content domain title))
    \<and> fst (fst (calculate_media_literacy_score http json_loads scorer content domain title)) \<le> 100)
   \<and> (call_openrouter http scorer (build_analysis_prompt content domain title) primary_model = None
        \<and> call_openrouter http scorer (build_analysis_prompt content domain title) fallback_model = None
      \<longrightarrow>
        fst (analyze_with_openrouter http json_loads scorer content domain title)
          = (50, [(''status'', JStr ''error''), (''error'', JStr ''API unavailable''),
                  (''fallback_reason'', JStr ''Both models failed'')])
        \<and> (fst (needs_analysis content domain) \<longrightarrow>
             fst (fst (calculate_media_literacy_score http json_loads scorer content domain title)) = 50
             \<and> map_of (snd (fst (calculate_media_literacy_score http json_loads scorer
                    content domain title))) ''status'' = Some (JStr ''error'')))
   \<and> (model_response http scorer (build_analysis_prompt content domain title) = Some resp
        \<and> response_text resp = Inr t \<and> json_loads t = Inl JSONDecodeError
      \<longrightarrow>
        fst (analyze_with_openrouter http json_loads scorer content domain title)
          = (50, [(''status'', JStr ''error''), (''error'', JStr ''Invalid JSON response''),
                  (''raw_response'', JStr (take 200 t))]))
   \<and> (model_response http scorer (build_analysis_prompt content domain title) = Some resp
        \<and> (response_text resp = Inl e
             \<or> (\<exists>t. response_text resp = Inr t \<and> read_analysis json_loads resp t = Inl e))
      \<longrightarrow>
        fst (fst (analyze_with_openrouter http json_loads scorer content domain title)) = 50
        \<and> map_of (snd (fst (analyze_with_openrouter http json_loads scorer content domain title)))
             ''status'' = Some (JStr ''error''))
   \<and> (model_response http scorer (build_analysis_prompt content domain title) = Some resp
        \<and> response_text resp = Inr t \<and> json_loads t = Inr analysis
        \<and> json_get analysis ''credibility_score'' (JInt 50) = Inr (JInt n)
      \<longrightarrow>
        fst (fst (analyze_with_openrouter http json_loads scorer content domain title))
          = max 0 (min 100 n))"
proof -
  let ?p = "build_analysis_prompt content domain title"
  let ?a = "analyze_with_openrouter http json_loads scorer content domain title"
  let ?c = "calculate_media_literacy_score http json_loads scorer content domain title"
  have c1: "0 \<le> fst (fst ?c) \<and> fst (fst ?c) \<le> 100"
    by (rule media_score_bounds)
  have c2: "call_openrouter http scorer ?p primary_model = None
        \<and> call_openrouter http scorer ?p fallback_model = None
      \<longrightarrow>
        fst ?a = (50, [(''status'', JStr ''error''), (''error'', JStr ''API unavailable''),
                  (''fallback_reason'', JStr ''Both models failed'')])
        \<and> (fst (needs_analysis content domain) \<longrightarrow>
             fst (fst ?c) = 50 \<and> map_of (snd (fst ?c)) ''status'' = Some (JStr ''error''))"
  proof (intro impI conjI)
    assume h: "call_openrouter http scorer ?p primary_model = None
        \<and> call_openrouter http scorer ?p fallback_model = None"
    show "fst ?a = (50, [(''status'', JStr ''error''), (''error'', JStr ''API unavailable''),
                  (''fallback_reason'', JStr ''Both models failed'')])"
      by (rule analyze_both_fail [OF conjunct1 [OF h] conjunct2 [OF h]])
    assume n: "fst (needs_analysis content domain)"
    from media_both_fail [OF n conjunct1 [OF h] conjunct2 [OF h]]
    show "fst (fst ?c) = 50" and "map_of (snd (fst ?c)) ''status'' = Some (JStr ''error'')"
      by simp_all
  qed
  have c3: "model_response http scorer ?p = Some resp
        \<and> response_text resp = Inr t \<and> json_loads t = Inl JSONDecodeError
      \<longrightarrow>
        fst ?a = (50, [(''status'', JStr ''error''), (''error'', JStr ''Invalid JSON response''),
                  (''raw_response'', JStr (take 200 t))])"
  proof
    assume h: "model_response http scorer ?p = Some resp
        \<and> response_text resp = Inr t \<and> json_loads t = Inl JSONDecodeError"
    show "fst ?a = (50, [(''status'', JStr ''error''), (''error'', JStr ''Invalid JSON response''),
                  (''raw_response'', JStr (take 200 t))])"
      by (rule analyze_malformed [where json_loads = json_loads, OF conjunct1 [OF h] conjunct1 [OF conjunct2 [OF h]]
            conjunct2 [OF conjunct2 [OF h]]])
  qed
  have c4: "model_response http scorer ?p = Some resp
        \<and> (response_text resp = Inl e
             \<or> (\<exists>t. response_text resp = Inr t \<and> read_analysis json_loads resp t = Inl e))
      \<longrightarrow>
        fst (fst ?a) = 50 \<and> map_of (snd (fst ?a)) ''status'' = Some (JStr ''error'')"
  proof
    assume h: "model_response http scorer ?p = Some resp
        \<and> (response_text resp = Inl e
             \<or> (\<exists>t. response_text resp = Inr t \<and> read_analysis json_loads resp t = Inl e))"
    from analyze_error_neutral [OF conjunct1 [OF h] conjunct2 [OF h]]
    show "fst (fst ?a) = 50 \<and> map_of (snd (fst ?a)) ''status'' = Some (JStr ''error'')" .
  qed
  have c5: "model_response http scorer ?p = Some resp
        \<and> response_text resp = Inr t \<and> json_loads t = Inr analysis
        \<and> json_get analysis ''credibility_score'' (JInt 50) = Inr (JInt n)
      \<longrightarrow> fst (fst ?a) = max 0 (min 100 n)"
  proof
    assume h: "model_response http scorer ?p = Some resp
        \<and> response_text resp = Inr t \<and> json_loads t = Inr analysis
        \<and> json_get analysis ''credibility_score'' (JInt 50) = Inr (JInt n)"
    show "fst (fst ?a) = max 0 (min 100 n)"
      by (rule analyze_success [where json_loads = json_loads, OF conjunct1 [OF h] conjunct1 [OF conjunct2 [OF h]]
            conjunct1 [OF conjunct2 [OF conjunct2 [OF h]]]
            conjunct2 [OF conjunct2 [OF conjunct2 [OF h]]]])
  qed
  from c1 c2 c3 c4 c5 show ?thesis by (intro conjI) (simp_all only:)
qed


theorem media_literacy_never_raises_witness:
  "fst (calculate_media_literacy_score (\<lambda>p m. None) (\<lambda>s. Inl JSONDecodeError)
          \<lparr>api_key = Some ''sk-or-test'',
           stats = \<lparr>total_calls = 0, skipped_neutral = 0, analyzed = 0, errors = 0,
                    fallback_used = 0\<rparr>\<rparr>
          ''Ancient maps often drew a flat earth, long before sailors and astronomers measured the curve of the horizon.''
          ''example.com'' None)
     = (50, [(''status'', JStr ''error''), (''error'', JStr ''API unavailable''),
             (''fallback_reason'', JStr ''Both models failed''),
             (''triggered_by'', JArr [JStr ''flat earth'', JStr ''flat earth''])])
   \<and> fst (analyze_with_openrouter
          (\<lambda>p m. Some (JObj [(''choices'',
             JArr [JObj [(''message'', JObj [(''content'', JStr ''  Sorry, no JSON here. '')])]])]))
          (\<lambda>s. Inl JSONDecodeError)
          \<lparr>api_key = Some ''sk-or-test'',
           stats = \<lparr>total_calls = 0, skipped_neutral = 0, analyzed = 0, errors = 0,
                    fallback_used = 0\<rparr>\<rparr>
          ''text'' ''example.com'' None)
     = (50, [(''status'', JStr ''error''), (''error'', JStr ''Invalid JSON response''),
             (''raw_response'', JStr ''Sorry, no JSON here.'')])
   \<and> fst (fst (analyze_with_openrouter
          (\<lambda>p m. Some (JObj [(''choices'',
             JArr [JObj [(''message'', JObj [(''content'', JStr ''```json SCORE ```'')])]])]))
          (\<lambda>s. Inr (JObj [(''credibility_score'', JInt 250)]))
          \<lparr>api_key = Some ''sk-or-test'',
           stats = \<lparr>total_calls = 0, skipped_neutral = 0, analyzed = 0, errors = 0,
                    fallback_used = 0\<rparr>\<rparr>
          ''text'' ''example.com'' None))
     = 100"
proof -
  let ?sc = "\<lparr>api_key = Some ''sk-or-test'',
           stats = \<lparr>total_calls = 0, skipped_neutral = 0, analyzed = 0, errors = 0,
                    fallback_used = 0\<rparr>\<rparr>"
  let ?c = "''Ancient maps often drew a flat earth, long before sailors and astronomers measured the curve of the horizon.''"
  let ?down = "\<lambda>(p :: prompt) (m :: string). (None :: json option)"
  let ?bad = "\<lambda>s :: string. (Inl JSONDecodeError :: py_error + json)"
  let ?r1 = "JObj [(''choices'',
             JArr [JObj [(''message'', JObj [(''content'', JStr ''  Sorry, no JSON here. '')])]])]"
  let ?r2 = "JObj [(''choices'',
             JArr [JObj [(''message'', JObj [(''content'', JStr ''```json SCORE ```'')])]])]"
  let ?good = "\<lambda>s :: string. (Inr (JObj [(''credibility_score'', JInt 250)]) :: py_error + json)"
  have a1: "call_openrouter ?down ?sc (build_analysis_prompt ?c ''example.com'' None) primary_model = None
      \<and> call_openrouter ?down ?sc (build_analysis_prompt ?c ''example.com'' None) fallback_model = None"
    by (simp add: call_openrouter_def)
  have a2: "fst (needs_analysis ?c ''example.com'')"
    by (simp add: flat_earth_matches)
  have a3: "calculate_media_literacy_score ?down ?bad ?sc ?c ''example.com'' None
      = ((50, [(''status'', JStr ''error''), (''error'', JStr ''API unavailable''),
             (''fallback_reason'', JStr ''Both models failed''),
             (''triggered_by'', JArr [JStr ''flat earth'', JStr ''flat earth''])]),
         \<lparr>api_key = Some ''sk-or-test'',
           stats = \<lparr>total_calls = 1, skipped_neutral = 0, analyzed = 0, errors = 1,
                    fallback_used = 1\<rparr>\<rparr>)"
    by (simp add: calculate_media_literacy_score_def flat_earth_matches
          analyze_with_openrouter_def call_openrouter_def count_error_def Let_def)
  have b1: "model_response (\<lambda>p m. Some ?r1) ?sc (build_analysis_prompt ''text'' ''example.com'' None)
      = Some ?r1"
    by (simp add: model_response_def call_openrouter_def log_usage_def)
  have b2: "response_text ?r1 = Inr ''Sorry, no JSON here.''"
    by code_simp
  have b3: "?bad ''Sorry, no JSON here.'' = Inl JSONDecodeError"
    by simp
  have c1: "model_response (\<lambda>p m. Some ?r2) ?sc (build_analysis_prompt ''text'' ''example.com'' None)
      = Some ?r2"
    by (simp add: model_response_def call_openrouter_def log_usage_def)
  have c2: "response_text ?r2 = Inr ''SCORE''"
    by code_simp
  have c3: "?good ''SCORE'' = Inr (JObj [(''credibility_score'', JInt 250)])"
    by simp
  have c4: "json_get (JObj [(''credibility_score'', JInt 250)]) ''credibility_score'' (JInt 50)
      = Inr (JInt 250)"
    by (simp add: json_get_def)
  note t1 = media_literacy_never_raises [of ?down ?bad ?sc ?c "''example.com''" None]
  have r1: "fst (fst (calculate_media_literacy_score ?down ?bad ?sc ?c ''example.com'' None)) = 50"
    using t1 a1 a2 by simp
  note t2 = media_literacy_never_raises [of "\<lambda>p m. Some ?r1" ?bad ?sc "''text''" "''example.com''" None
      ?r1 "''Sorry, no JSON here.''"]
  have r2: "fst (analyze_with_openrouter (\<lambda>p m. Some ?r1) ?bad ?sc ''text'' ''example.com'' None)
      = (50, [(''status'', JStr ''error''), (''error'', JStr ''Invalid JSON response''),
             (''raw_response'', JStr ''Sorry, no JSON here.'')])"
    using t2 b1 b2 b3 by simp
  note t3 = media_literacy_never_raises [of "\<lambda>p m. Some ?r2" ?good ?sc "''text''" "''example.com''" None
      ?r2 "''SCORE''" _ "JObj [(''credibility_score'', JInt 250)]" 250]
  have r3: "fst (fst (analyze_with_openrouter (\<lambda>p m. Some ?r2) ?good ?sc ''text'' ''example.com'' None))
      = 100"
    using t3 c1 c2 c3 c4 by simp
  from a3 r1 r2 r3 show ?thesis by simp
qed

section \<open>Evaluating floats\<close>

text \<open>
  \<open>ilog2\<close> is the binary exponent, so \<open>fl x\<close> is determined by any \<open>e\<close> with
  \<open>2^e \<le> x < 2^(e+1)\<close> and the integer nearest to \<open>x / 2^(e-52)\<close>.
\<close>

lemma pow2_powi: "pow2 k = 2 powi k"
  by (simp add: pow2_def power_int_def power_one_over inverse_eq_divide)

lemma pow2_pos: "0 < pow2 k"
  by (simp add: pow2_powi)

lemma pow2_add: "pow2 (a + b) = pow2 a * pow2 b"
  by (simp add: pow2_powi power_int_add)

lemma pow2_less: "a < b \<Longrightarrow> pow2 a < pow2 b"
  by (simp add: pow2_powi power_int_strict_increasing)

lemma pow2_le: "a \<le> b \<Longrightarrow> pow2 a \<le> pow2 b"
  by (simp add: pow2_powi power_int_increasing)

lemma pow2_nat: "0 \<le> k \<Longrightarrow> pow2 k = 2 ^ nat k"
  by (simp add: pow2_def)

lemma bitlen_pow2_bounds:
  assumes "0 < p"
  shows "pow2 (bitlen p - 1) \<le> of_int p" and "of_int p < pow2 (bitlen p)"
proof -
  from bitlen_bounds [OF assms]
  have a: "2 ^ nat (bitlen p - 1) \<le> p" and b: "p < 2 ^ nat (bitlen p)" by simp_all
  have c: "1 \<le> bitlen p" using assms by (simp add: bitlen_alt_def)
  from a have "(of_int (2 ^ nat (bitlen p - 1)) :: rat) \<le> of_int p"
    by (simp only: of_int_le_iff)
  then show "pow2 (bitlen p - 1) \<le> of_int p"
    using c by (simp add: pow2_nat)
  from b have "(of_int p :: rat) < of_int (2 ^ nat (bitlen p))"
    by (simp only: of_int_less_iff)
  then show "of_int p < pow2 (bitlen p)"
    using c by (simp add: pow2_nat)
qed

lemma ilog2_bounds:
  assumes "0 < x"
  shows "pow2 (ilog2 x) \<le> x \<and> x < pow2 (ilog2 x + 1)"
proof -
  obtain p q where pq: "quotient_of x = (p, q)" by (cases "quotient_of x")
  then have q: "0 < q" by (rule quotient_of_denom_pos)
  from pq have x: "x = of_int p / of_int q" by (rule quotient_of_div)
  with assms q have p: "0 < p" by (simp add: zero_less_divide_iff)
  let ?d = "bitlen p - bitlen q"
  note bp = bitlen_pow2_bounds [OF p] and bq = bitlen_pow2_bounds [OF q]
  have qpos: "(0 :: rat) < of_int q" using q by simp
  have up: "x < pow2 (?d + 1)"
  proof -
    have "of_int p < pow2 (bitlen p)" by (rule bp(2))
    also have "\<dots> = pow2 (?d + 1) * pow2 (bitlen q - 1)"
      by (simp flip: pow2_add)
    also have "\<dots> \<le> pow2 (?d + 1) * of_int q"
      using bq(1) pow2_pos [of "?d + 1"] by (simp add: mult_left_mono)
    finally show ?thesis using qpos by (simp add: x pos_divide_less_eq)
  qed
  have lo: "pow2 (?d - 1) < x"
  proof -
    have "pow2 (?d - 1) * of_int q < pow2 (?d - 1) * pow2 (bitlen q)"
      using bq(2) pow2_pos [of "?d - 1"] by (simp add: mult_strict_left_mono)
    also have "\<dots> = pow2 (bitlen p - 1)"
      by (simp flip: pow2_add)
    also have "\<dots> \<le> of_int p" by (rule bp(1))
    finally show ?thesis using qpos by (simp add: x pos_less_divide_eq)
  qed
  show ?thesis
  proof (cases "pow2 ?d \<le> x")
    case True
    then have "ilog2 x = ?d" by (simp add: ilog2_def pq)
    with True up show ?thesis by simp
  next
    case False
    then have "ilog2 x = ?d - 1" by (simp add: ilog2_def pq)
    with False lo show ?thesis by simp
  qed
qed

lemma ilog2_unique:
  assumes "0 < x" and "pow2 e \<le> x" and "x < pow2 (e + 1)"
  shows "ilog2 x = e"
proof -
  from ilog2_bounds [OF assms(1)]
  have a: "pow2 (ilog2 x) \<le> x" and b: "x < pow2 (ilog2 x + 1)" by simp_all
  have "\<not> ilog2 x + 1 \<le> e"
    using pow2_le [of "ilog2 x + 1" e] assms(2) b by auto
  moreover have "\<not> e + 1 \<le> ilog2 x"
    using pow2_le [of "e + 1" "ilog2 x"] assms(3) a by auto
  ultimately show ?thesis by simp
qed

lemma fl_eval:
  assumes "0 < x" and "pow2 e \<le> x" and "x < pow2 (e + 1)"
  shows "fl x = of_int (round_half_even (x / pow2 (e - 52))) * pow2 (e - 52)"
  using assms ilog2_unique [OF assms] by (simp add: fl_def Let_def)

lemma fl_zero: "fl 0 = 0"
  by (simp add: fl_def)


lemma round_half_even_near:
  assumes "of_int z - 1 / 2 < x" and "x < of_int z + 1 / 2"
  shows "round_half_even x = z"
proof (cases "of_int z \<le> x")
  case True
  with assms have "\<lfloor>x\<rfloor> = z" by (intro floor_unique) simp_all
  with assms show ?thesis by (simp add: round_half_even_def Let_def)
next
  case False
  with assms have "\<lfloor>x\<rfloor> = z - 1" by (intro floor_unique) simp_all
  with assms False show ?thesis by (simp add: round_half_even_def Let_def)
qed

lemma round_half_even_tie:
  assumes "x = of_int z + 1 / 2" and "r = (if even z then z else z + 1)"
  shows "round_half_even x = r"
proof -
  from assms have "\<lfloor>x\<rfloor> = z" by (intro floor_unique) simp_all
  with assms show ?thesis by (simp add: round_half_even_def Let_def)
qed

lemma fl_nearest:
  assumes "0 < x" and "pow2 e \<le> x" and "x < pow2 (e + 1)"
    and "of_int m - 1 / 2 < x / pow2 (e - 52)" and "x / pow2 (e - 52) < of_int m + 1 / 2"
    and "y = of_int m * pow2 (e - 52)"
  shows "fl x = y"
  using fl_eval [OF assms(1-3)] round_half_even_near [OF assms(4,5)] assms(6) by simp

lemma fl_tie:
  assumes "0 < x" and "pow2 e \<le> x" and "x < pow2 (e + 1)"
    and "x / pow2 (e - 52) = of_int f + 1 / 2"
    and "y = of_int (if even f then f else f + 1) * pow2 (e - 52)"
  shows "fl x = y"
  using fl_eval [OF assms(1-3)] round_half_even_tie [OF assms(4) refl] assms(5) by simp


lemma float_of_int_2: "float_of_int 2 = 2"
  unfolding float_of_int_def of_int_numeral of_int_0 of_int_1
  by (rule fl_nearest [where e = "1" and m = "4503599627370496"]) (simp_all add: pow2_def)


subsection \<open>The operations of three examples\<close>

text \<open>
  The float operations the weighted sum performs on the scores
  \<open>(0, 50, 50, 50, 0)\<close>, \<open>(-80, 10, 10, 10, 0)\<close> and \<open>(-61, 18, 40, 41, 0)\<close>,
  each with its exponent and its 53-digit integer.
\<close>

lemma float_literal_30: "float_literal (30 / 100) = 5404319552844595 / 18014398509481984"
  unfolding float_literal_def
  by (rule fl_nearest [where e = "-2" and m = "5404319552844595"]) (simp_all add: pow2_def)

lemma float_literal_25: "float_literal (25 / 100) = 1 / 4"
  unfolding float_literal_def
  by (rule fl_nearest [where e = "-2" and m = "4503599627370496"]) (simp_all add: pow2_def)

lemma float_literal_20: "float_literal (20 / 100) = 3602879701896397 / 18014398509481984"
  unfolding float_literal_def
  by (rule fl_nearest [where e = "-3" and m = "7205759403792794"]) (simp_all add: pow2_def)

lemma float_literal_15: "float_literal (15 / 100) = 5404319552844595 / 36028797018963968"
  unfolding float_literal_def
  by (rule fl_nearest [where e = "-3" and m = "5404319552844595"]) (simp_all add: pow2_def)

lemma float_literal_10: "float_literal (10 / 100) = 3602879701896397 / 36028797018963968"
  unfolding float_literal_def
  by (rule fl_nearest [where e = "-4" and m = "7205759403792794"]) (simp_all add: pow2_def)


lemma float_of_int_0: "float_of_int 0 = 0"
  by (simp add: float_of_int_def of_int_numeral of_int_0 of_int_1 fl_zero)





lemma float_mul_6: "float_mul 0 (3602879701896397 / 36028797018963968) = 0"
  by (simp add: float_mul_def fl_zero)
















lemma float_of_int_39: "float_of_int 39 = 39"
  unfolding float_of_int_def of_int_numeral of_int_0 of_int_1
  by (rule fl_nearest [where e = "5" and m = "5488762045857792"]) (simp_all add: pow2_def)

lemma float_div_21: "float_div 39 2 = 39 / 2"
  unfolding float_div_def
  by (rule fl_nearest [where e = "4" and m = "5488762045857792"]) (simp_all add: pow2_def)

lemma float_of_int_18: "float_of_int 18 = 18"
  unfolding float_of_int_def of_int_numeral of_int_0 of_int_1
  by (rule fl_nearest [where e = "4" and m = "5066549580791808"]) (simp_all add: pow2_def)

lemma float_of_int_40: "float_of_int 40 = 40"
  unfolding float_of_int_def of_int_numeral of_int_0 of_int_1
  by (rule fl_nearest [where e = "5" and m = "5629499534213120"]) (simp_all add: pow2_def)

lemma float_of_int_41: "float_of_int 41 = 41"
  unfolding float_of_int_def of_int_numeral of_int_0 of_int_1
  by (rule fl_nearest [where e = "5" and m = "5770237022568448"]) (simp_all add: pow2_def)

lemma float_mul_22: "float_mul (39 / 2) (5404319552844595 / 18014398509481984) = 3293257227514675 / 562949953421312"
  unfolding float_mul_def
  by (rule fl_nearest [where e = "2" and m = "6586514455029350"]) (simp_all add: pow2_def)

lemma float_mul_23: "float_mul 18 (1 / 4) = 9 / 2"
  unfolding float_mul_def
  by (rule fl_nearest [where e = "2" and m = "5066549580791808"]) (simp_all add: pow2_def)

lemma float_mul_24: "float_mul 40 (3602879701896397 / 18014398509481984) = 8"
  unfolding float_mul_def
  by (rule fl_nearest [where e = "3" and m = "4503599627370496"]) (simp_all add: pow2_def)

lemma float_mul_25: "float_mul 41 (5404319552844595 / 36028797018963968) = 6924284427082137 / 1125899906842624"
  unfolding float_mul_def
  by (rule fl_nearest [where e = "2" and m = "6924284427082137"]) (simp_all add: pow2_def)

lemma float_add_27: "float_add (3293257227514675 / 562949953421312) (9 / 2) = 5826532017910579 / 562949953421312"
  unfolding float_add_def
  by (rule fl_nearest [where e = "3" and m = "5826532017910579"]) (simp_all add: pow2_def)

lemma float_add_28: "float_add (5826532017910579 / 562949953421312) 8 = 2582532911320269 / 140737488355328"
  unfolding float_add_def
  by (rule fl_tie [where e = "4" and f = "5165065822640537"]) (simp_all add: pow2_def)

lemma float_add_29: "float_add (2582532911320269 / 140737488355328) (6924284427082137 / 1125899906842624) = 49 / 2"
  unfolding float_add_def
  by (rule fl_nearest [where e = "4" and m = "6896136929411072"]) (simp_all add: pow2_def)

lemma float_add_30: "float_add (49 / 2) 0 = 49 / 2"
  unfolding float_add_def
  by (rule fl_nearest [where e = "4" and m = "6896136929411072"]) (simp_all add: pow2_def)









lemma composite_tie_sum: "((-61) :: int) + 100 = 39"
  by simp

lemma composite_tie_normalized: "islamic_normalized_of (IntNum (-61)) = 39 / 2"
  by (simp only: islamic_normalized_of_def number.case composite_tie_sum float_of_int_39 float_of_int_2 float_div_21)

lemma composite_tie_sum_value: "weighted_composite (39 / 2) 18 40 41 0 = 49 / 2"
  by (simp only: weighted_composite_def float_literal_30 float_literal_25 float_literal_20 float_literal_15 float_literal_10 float_of_int_18 float_of_int_40 float_of_int_41 float_of_int_0 float_mul_22 float_mul_23 float_mul_24 float_mul_25 float_mul_6 float_add_27 float_add_28 float_add_29 float_add_30)

lemma composite_tie_round: "py_round (49 / 2) = 24"
  unfolding py_round_def
  by (rule round_half_even_tie [where z = "24"]) simp_all


section \<open>Properties of the quality score\<close>

lemma startswith_set: "startswith s p \<Longrightarrow> set p \<subseteq> set s"
  by (induction s p rule: startswith.induct) auto

lemma contains_set: "contains p s \<Longrightarrow> set p \<subseteq> set s"
proof (induction s)
  case Nil
  then show ?case by simp
next
  case (Cons c cs)
  then show ?case using startswith_set [of "c # cs" p] by auto
qed

lemma lower_char_slash: "lower_char c = CHR ''/'' \<Longrightarrow> c = CHR ''/''"
  by (cases c) (auto simp: lower_char_code split: if_splits)

lemma urlparse_netloc_no_slash:
  assumes "urlparse_netloc check_host url = Inr d"
  shows "CHR ''/'' \<notin> set d"
proof -
  have "CHR ''/'' \<notin> set (splitnetloc u)" for u
    by (auto simp: splitnetloc_def dest: set_takeWhileD)
  with assms show ?thesis
    by (auto simp: urlparse_netloc_def Let_def split: if_splits option.splits)
qed

lemma netloc_without_https:
  assumes "urlparse_netloc check_host url = Inr d"
  shows "\<not> contains ''https://'' (lower d)"
proof
  assume "contains ''https://'' (lower d)"
  then have "set ''https://'' \<subseteq> set (lower d)" by (rule contains_set)
  then have "CHR ''/'' \<in> lower_char ` set d" by (simp add: lower_def)
  then obtain c where "c \<in> set d" and "lower_char c = CHR ''/''" by auto
  then have "CHR ''/'' \<in> set d" using lower_char_slash by blast
  with urlparse_netloc_no_slash [OF assms] show False by simp
qed

lemma quality_short_content:
  assumes "content = [] \<or> length (strip content) < 50"
  shows "calculate_quality_score h content domain title = (0, [(''reason'', JStr ''content_too_short'')])"
  using assms by (auto simp: calculate_quality_score_def)

lemma quality_has_ssl:
  assumes "content \<noteq> []" and "50 \<le> length (strip content)"
  shows "map_of (snd (calculate_quality_score h content domain title)) ''has_ssl''
           = Some (JBool (contains ''https://'' (lower domain)))"
    and "fst (calculate_quality_score h content domain title)
           = min 100 (calculate_readability h content + calculate_content_length_score h content
               + calculate_structural_quality h content + grammar_uniqueness h content
               + ((if contains ''https://'' (lower domain) then 10 else 0)
                  + get_domain_age_score h domain + 5))"
  using assms by (simp_all add: calculate_quality_score_def Let_def)

text \<open>
  C10, as the code has it. For a content of at least 50 characters after trimming,
  \<open>has_ssl\<close> is true, and 10 points are part of the technical score, exactly when
  \<open>https://\<close> occurs in the lower-cased domain argument; a shorter content returns
  0 with the reason \<open>content_too_short\<close> before the check. The domain stored by
  \<open>save_page\<close> is the network location of the URL, which holds no slash, so
  \<open>https://\<close> never occurs in it: scored with the stored domain, a page has
  \<open>has_ssl\<close> false (or no such item) and a score without the 10 points.
\<close>

theorem quality_ssl_bonus:
  "(content \<noteq> [] \<and> 50 \<le> length (strip content) \<longrightarrow>
      map_of (snd (calculate_quality_score h content domain title)) ''has_ssl''
        = Some (JBool (contains ''https://'' (lower domain)))
      \<and> fst (calculate_quality_score h content domain title)
        = min 100 (calculate_readability h content + calculate_content_length_score h content
            + calculate_structural_quality h content + grammar_uniqueness h content
            + ((if contains ''https://'' (lower domain) then 10 else 0)
               + get_domain_age_score h domain + 5)))
   \<and> (content = [] \<or> length (strip content) < 50 \<longrightarrow>
      calculate_quality_score h content domain title
        = (0, [(''reason'', JStr ''content_too_short'')]))
   \<and> (save_page_domain check_host url = Inr stored \<longrightarrow>
      \<not> contains ''https://'' (lower stored)
      \<and> map_of (snd (calculate_quality_score h content stored title)) ''has_ssl''
          \<noteq> Some (JBool True)
      \<and> (content \<noteq> [] \<and> 50 \<le> length (strip content) \<longrightarrow>
           map_of (snd (calculate_quality_score h content stored title)) ''has_ssl''
             = Some (JBool False)
           \<and> fst (calculate_quality_score h content stored title)
             = min 100 (calculate_readability h content + calculate_content_length_score h content
                 + calculate_structural_quality h content + grammar_uniqueness h content
                 + (get_domain_age_score h stored + 5))))"
proof (intro conjI impI)
  assume a: "content \<noteq> [] \<and> 50 \<le> length (strip content)"
  from quality_has_ssl(1) [OF conjunct1 [OF a] conjunct2 [OF a]]
  show "map_of (snd (calculate_quality_score h content domain title)) ''has_ssl''
        = Some (JBool (contains ''https://'' (lower domain)))" .
  from quality_has_ssl(2) [OF conjunct1 [OF a] conjunct2 [OF a]]
  show "fst (calculate_quality_score h content domain title)
        = min 100 (calculate_readability h content + calculate_content_length_score h content
            + calculate_structural_quality h content + grammar_uniqueness h content
            + ((if contains ''https://'' (lower domain) then 10 else 0)
               + get_domain_age_score h domain + 5))" .
next
  assume "content = [] \<or> length (strip content) < 50"
  then show "calculate_quality_score h content domain title
        = (0, [(''reason'', JStr ''content_too_short'')])"
    by (rule quality_short_content)
next
  assume s: "save_page_domain check_host url = Inr stored"
  then have n: "\<not> contains ''https://'' (lower stored)"
    unfolding save_page_domain_def by (rule netloc_without_https)
  show "\<not> contains ''https://'' (lower stored)" by (rule n)
  show "map_of (snd (calculate_quality_score h content stored title)) ''has_ssl''
          \<noteq> Some (JBool True)"
    using n by (simp add: calculate_quality_score_def Let_def)
  assume a: "content \<noteq> [] \<and> 50 \<le> length (strip content)"
  from quality_has_ssl(1) [OF conjunct1 [OF a] conjunct2 [OF a], of h stored title] n
  show "map_of (snd (calculate_quality_score h content stored title)) ''has_ssl''
             = Some (JBool False)" by simp
  from quality_has_ssl(2) [OF conjunct1 [OF a] conjunct2 [OF a], of h stored title] n
  show "fst (calculate_quality_score h content stored title)
             = min 100 (calculate_readability h content + calculate_content_length_score h content
                 + calculate_structural_quality h content + grammar_uniqueness h content
                 + (get_domain_age_score h stored + 5))" by simp
qed


theorem quality_ssl_bonus_witness:
  "save_page_domain (\<lambda>h. None) ''https://example.org/about'' = Inr ''example.org''
   \<and> calculate_quality_score
         \<lparr>calculate_readability = (\<lambda>c. 10), calculate_content_length_score = (\<lambda>c. 0),
          calculate_structural_quality = (\<lambda>c. 5), grammar_uniqueness = (\<lambda>c. 5),
          get_domain_age_score = (\<lambda>d. 5)\<rparr>
         ''A page of plain text that is long enough to be scored by the quality scorer.''
         ''example.org'' None
       = (30, [(''readability'', JInt 10), (''content_length'', JInt 0),
               (''structural_quality'', JInt 5), (''grammar_uniqueness'', JInt 5),
               (''has_ssl'', JBool False), (''domain_age_score'', JInt 5),
               (''mobile_optimized'', JBool True), (''total'', JInt 30)])
   \<and> fst (calculate_quality_score
         \<lparr>calculate_readability = (\<lambda>c. 10), calculate_content_length_score = (\<lambda>c. 0),
          calculate_structural_quality = (\<lambda>c. 5), grammar_uniqueness = (\<lambda>c. 5),
          get_domain_age_score = (\<lambda>d. 5)\<rparr>
         ''A page of plain text that is long enough to be scored by the quality scorer.''
         ''https://example.org'' None) = 40"
proof -
  let ?h = "\<lparr>calculate_readability = (\<lambda>c :: string. 10 :: int),
          calculate_content_length_score = (\<lambda>c :: string. 0 :: int),
          calculate_structural_quality = (\<lambda>c :: string. 5 :: int),
          grammar_uniqueness = (\<lambda>c :: string. 5 :: int),
          get_domain_age_score = (\<lambda>d :: string. 5 :: int)\<rparr>"
  let ?c = "''A page of plain text that is long enough to be scored by the quality scorer.''"
  have p: "save_page_domain (\<lambda>h. None) ''https://example.org/about'' = Inr ''example.org''"
    by code_simp
  have l: "?c \<noteq> [] \<and> 50 \<le> length (strip ?c)"
    by code_simp
  have c: "contains ''https://'' (lower ''https://example.org'')"
    by code_simp
  have e: "calculate_quality_score ?h ?c ''example.org'' None
       = (30, [(''readability'', JInt 10), (''content_length'', JInt 0),
               (''structural_quality'', JInt 5), (''grammar_uniqueness'', JInt 5),
               (''has_ssl'', JBool False), (''domain_age_score'', JInt 5),
               (''mobile_optimized'', JBool True), (''total'', JInt 30)])"
    by code_simp
  note t1 = quality_ssl_bonus [of ?c ?h "''example.org''" None "\<lambda>h. None"
      "''https://example.org/about''" "''example.org''"]
  from t1 p l have "fst (calculate_quality_score ?h ?c ''example.org'' None) = 30"
    by simp
  note t2 = quality_ssl_bonus [of ?c ?h "''https://example.org''" None "\<lambda>h. None"
      "''https://example.org/about''" "''example.org''"]
  from t2 l c have f: "fst (calculate_quality_score ?h ?c ''https://example.org'' None) = 40"
    by simp
  from p e f show ?thesis by simp
qed

theorem quality_ssl_bonus_counterexample:
  "contains ''https://'' (lower ''https://example.org'')
   \<and> calculate_quality_score
         \<lparr>calculate_readability = (\<lambda>c. 10), calculate_content_length_score = (\<lambda>c. 0),
          calculate_structural_quality = (\<lambda>c. 5), grammar_uniqueness = (\<lambda>c. 5),
          get_domain_age_score = (\<lambda>d. 5)\<rparr>
         ''Too short to score.'' ''https://example.org'' None
       = (0, [(''reason'', JStr ''content_too_short'')])
   \<and> map_of (snd (calculate_quality_score
         \<lparr>calculate_readability = (\<lambda>c. 10), calculate_content_length_score = (\<lambda>c. 0),
          calculate_structural_quality = (\<lambda>c. 5), grammar_uniqueness = (\<lambda>c. 5),
          get_domain_age_score = (\<lambda>d. 5)\<rparr>
         ''Too short to score.'' ''https://example.org'' None)) ''has_ssl'' \<noteq> Some (JBool True)"
  by code_simp

section \<open>The composite scorer\<close>

subsection \<open>A blocked domain\<close>

lemma blocked_result_lacks_scores:
  "dict_items
     ([(''page_id'', JInt page_id), (''url'', JStr url), (''scored_at'', JInt now)] @
      [(''final_composite_score'', JInt 0), (''indexable'', JBool False),
       (''blocklist_reason'', r),
       (''components'', JObj [(''org_blocked'', JBool True), (''reason'', r)])])
     (''islamic_alignment_score'' # keys)
   = Inl (KeyError (quoted ''islamic_alignment_score''))"
  by (simp add: dict_item_def)

lemma composite_org_blocked:
  assumes "check_org_blocklist check_host org_blocklist query_raises cache domain
             = Inr ((True, Some r), cache')"
  shows "calculate_composite_score check_host dims org_blocklist query_raises cache now
           page_id url title content domain freshness_age
         = Inr ([(''page_id'', JInt page_id), (''url'', JStr url), (''scored_at'', JInt now),
                 (''final_composite_score'', JInt 0), (''indexable'', JBool False),
                 (''blocklist_reason'', JStr r),
                 (''components'', JObj [(''org_blocked'', JBool True), (''reason'', JStr r)])],
                cache')"
  using assms by (simp add: calculate_composite_score_def Let_def)

lemma save_blocked_result_raises:
  "save_scores_to_db
     [(''page_id'', JInt page_id), (''url'', JStr url), (''scored_at'', JInt now),
      (''final_composite_score'', JInt 0), (''indexable'', JBool False),
      (''blocklist_reason'', JStr r),
      (''components'', JObj [(''org_blocked'', JBool True), (''reason'', JStr r)])] db
   = (Inl (KeyError (quoted ''islamic_alignment_score'')), db)"
  by (simp add: save_scores_to_db_def save_scores_try_def and_then_def dict_item_def)

lemma flagged_domain_blocked:
  assumes "clean_domain check_host domain = Inr d"
    and "cache d = None" and "org_blocklist d = Some row"
    and "splc_flagged row \<or> aclu_flagged row \<or> cair_flagged row \<or> adl_flagged row
         \<or> other_org_flagged row"
  shows "check_org_blocklist check_host org_blocklist False cache domain
           = Inr ((True, Some (block_reason_of row)),
                  cache(d \<mapsto> (True, Some (block_reason_of row))))"
  using assms by (simp add: check_org_blocklist_def Let_def)

text \<open>
  C1. When the override finds the domain flagged, \<open>calculate_composite_score\<close>
  returns, without calling another scorer, the result with the final score 0,
  \<open>indexable\<close> false and the reason. That result has none of the five score
  items \<open>save_scores_to_db\<close> reads first, so the lookup of
  \<open>islamic_alignment_score\<close> raises \<open>KeyError\<close>; the transaction is rolled back
  and the exception raised again. \<open>score_page\<close> therefore ends in that exception:
  nothing is stored and nothing is returned.
\<close>

theorem score_page_org_blocked_raises:
  assumes "check_org_blocklist check_host org_blocklist query_raises (blocklist_cache st) domain
             = Inr ((True, Some r), cache')"
  shows "calculate_composite_score check_host dims org_blocklist query_raises
             (blocklist_cache st) now page_id url title content domain freshness_age
           = Inr ([(''page_id'', JInt page_id), (''url'', JStr url), (''scored_at'', JInt now),
                   (''final_composite_score'', JInt 0), (''indexable'', JBool False),
                   (''blocklist_reason'', JStr r),
                   (''components'', JObj [(''org_blocked'', JBool True), (''reason'', JStr r)])],
                  cache')
         \<and> score_page check_host dims org_blocklist query_raises now st
               page_id url title content domain freshness_age
           = (Inl (KeyError (quoted ''islamic_alignment_score'')),
              st\<lparr>blocklist_cache := cache'\<rparr>)
         \<and> database (snd (score_page check_host dims org_blocklist query_raises now st
               page_id url title content domain freshness_age)) = database st"
proof -
  note c = composite_org_blocked [OF assms, of dims now page_id url title content freshness_age]
  have s: "score_page check_host dims org_blocklist query_raises now st
               page_id url title content domain freshness_age
           = (Inl (KeyError (quoted ''islamic_alignment_score'')),
              st\<lparr>blocklist_cache := cache'\<rparr>)"
    by (simp add: score_page_def c save_blocked_result_raises)
  from c s show ?thesis by simp
qed

theorem score_page_org_blocked_raises_witness:
  "check_org_blocklist (\<lambda>h. None)
       [''stormfront.org'' \<mapsto> \<lparr>splc_flagged = True, aclu_flagged = False, cair_flagged = False,
          adl_flagged = True, other_org_flagged = False, reason = Some ''hate forum''\<rparr>]
       False Map.empty ''www.stormfront.org''
     = Inr ((True, Some ''Flagged by: SPLC, ADL - hate forum''),
            [''stormfront.org'' \<mapsto> (True, Some ''Flagged by: SPLC, ADL - hate forum'')])
   \<and> fst (score_page (\<lambda>h. None) (example_scorers (IntNum 0) 50 50 50 0)
       [''stormfront.org'' \<mapsto> \<lparr>splc_flagged = True, aclu_flagged = False, cair_flagged = False,
          adl_flagged = True, other_org_flagged = False, reason = Some ''hate forum''\<rparr>]
       False 1762250000
       \<lparr>database = \<lparr>pages_scores = [JInt 7 \<mapsto> []], page_scoring_logs = []\<rparr>,
        blocklist_cache = Map.empty\<rparr>
       7 ''https://www.stormfront.org/forum'' (Some ''Forum'') ''Some text of the page.''
       ''www.stormfront.org'' None)
     = Inl (KeyError (quoted ''islamic_alignment_score''))
   \<and> database (snd (score_page (\<lambda>h. None) (example_scorers (IntNum 0) 50 50 50 0)
       [''stormfront.org'' \<mapsto> \<lparr>splc_flagged = True, aclu_flagged = False, cair_flagged = False,
          adl_flagged = True, other_org_flagged = False, reason = Some ''hate forum''\<rparr>]
       False 1762250000
       \<lparr>database = \<lparr>pages_scores = [JInt 7 \<mapsto> []], page_scoring_logs = []\<rparr>,
        blocklist_cache = Map.empty\<rparr>
       7 ''https://www.stormfront.org/forum'' (Some ''Forum'') ''Some text of the page.''
       ''www.stormfront.org'' None))
     = \<lparr>pages_scores = [JInt 7 \<mapsto> []], page_scoring_logs = []\<rparr>"
proof -
  let ?row = "\<lparr>splc_flagged = True, aclu_flagged = False, cair_flagged = False,
          adl_flagged = True, other_org_flagged = False, reason = Some ''hate forum''\<rparr>"
  let ?st = "\<lparr>database = \<lparr>pages_scores = [JInt 7 \<mapsto> []], page_scoring_logs = []\<rparr>,
        blocklist_cache = (Map.empty :: string \<rightharpoonup> bool \<times> string option)\<rparr>"
  have d: "clean_domain (\<lambda>h. None) ''www.stormfront.org'' = Inr ''stormfront.org''"
    by code_simp
  have b: "block_reason_of ?row = ''Flagged by: SPLC, ADL - hate forum''"
    by (simp add: block_reason_of_def)
  have k: "check_org_blocklist (\<lambda>h. None) [''stormfront.org'' \<mapsto> ?row] False
             (blocklist_cache ?st) ''www.stormfront.org''
     = Inr ((True, Some ''Flagged by: SPLC, ADL - hate forum''),
            [''stormfront.org'' \<mapsto> (True, Some ''Flagged by: SPLC, ADL - hate forum'')])"
    using flagged_domain_blocked [OF d, of Map.empty "[''stormfront.org'' \<mapsto> ?row]" ?row]
    by (simp add: b)
  from score_page_org_blocked_raises [OF k, of "example_scorers (IntNum 0) 50 50 50 0" 1762250000 7
      "''https://www.stormfront.org/forum''" "Some ''Forum''" "''Some text of the page.''" None] k
  show ?thesis by simp
qed

subsection \<open>The weighted sum\<close>



text \<open>
  At an exact half the rounding goes to the even integer: the scores
  \<open>(-61, 18, 40, 41, 0)\<close> have the weighted sum 24.5, which the floats compute
  exactly, and the final score is 24, below the threshold.
\<close>

lemma composite_tie_rounds_to_even:
  "py_round (weighted_composite (islamic_normalized_of (IntNum (- 61))) 18 40 41 0) = 24"
  by (simp only: composite_tie_normalized composite_tie_sum_value composite_tie_round)




end
